theory Spec2Isabelle
  imports Main
begin

section \<open>Tokens and the token source\<close>

text \<open>
  Modelled from the spec: \<^verbatim>\<open>lexer.h\<close> and \<^verbatim>\<open>lexer.cpp\<close> are not among the sources.
  \<open>TokenType\<close> lists the token kinds that \<^verbatim>\<open>parser.cpp\<close> and
  \<^verbatim>\<open>parse_statements.cpp\<close> name in the functions embedded below, the closing
  bracket \<open>RBracket\<close> that pairs with \<open>LBracket\<close>, and the eight spellings of the
  \<open>ul\<close>/\<open>lu\<close> integer suffix that the suffix table of the specification lists next
  to the \<open>l\<close>, \<open>u\<close>, \<open>ll\<close> and \<open>ull\<close> families (\<^verbatim>\<open>parse_number\<close> names none of
  the eight). The constructors are written qualified, \<open>TokenType.Int\<close> for
  \<^verbatim>\<open>TokenType::Int\<close>.
\<close>

datatype TokenType =
    Identifier | Number | Eof
  | IntegerSuffixl | IntegerSuffixL | IntegerSuffixu | IntegerSuffixU
  | IntegerSuffixll | IntegerSuffixLL
  | IntegerSuffixull | IntegerSuffixuLL | IntegerSuffixllu | IntegerSuffixLLu
  | IntegerSuffixUll | IntegerSuffixULL | IntegerSuffixllU | IntegerSuffixLLU
  | IntegerSuffixul | IntegerSuffixuL | IntegerSuffixUl | IntegerSuffixUL
  | IntegerSuffixlu | IntegerSuffixlU | IntegerSuffixLu | IntegerSuffixLU
  | Asterisk | ForwardSlash | Modulo | Equals
  | Const | Restrict | Volatile | Atomic
  | Typedef | Extern | Static | ThreadLocal | Auto | Register
  | AlignAs | Inline | NoReturn
  | Void | Char | Short | Int | Long | Float | Double | Signed | Unsigned | Bool | Complex
  | Struct | Enum | Union
  | Semicolon | Comma | LBracket | RBracket | LParen | RParen | LBrace | RBrace
  | Case | Default | If | Switch | While | For | Do | GoTo | Continue | Break | Return

record Token =
  type :: TokenType
  string :: string

text \<open>
  Modelled from the spec: the token source. The lexer holds the current token and the
  tokens not yet read; \<^verbatim>\<open>get_current_token\<close> peeks, \<^verbatim>\<open>get_next_token\<close> advances and
  makes the next token current (the token it returns is the new current token), and
  past the last token the current token is end-of-input for good.
\<close>

record Lexer =
  current_token :: Token
  remaining :: "Token list"

definition eof_token :: Token where
  "eof_token = \<lparr>type = TokenType.Eof, string = ''''\<rparr>"

definition get_current_token :: "Lexer \<Rightarrow> Token" where
  "get_current_token lexer = current_token lexer"

definition get_next_token :: "Lexer \<Rightarrow> Lexer" where
  "get_next_token lexer =
     (case remaining lexer of
        [] \<Rightarrow> \<lparr>current_token = eof_token, remaining = []\<rparr>
      | t # ts \<Rightarrow> \<lparr>current_token = t, remaining = ts\<rparr>)"

text \<open>
  Every way the parser stops without a result: a failed \<^verbatim>\<open>assert\<close> (assertions are
  compiled in, and the constructor carries the message or the asserted condition),
  \<^verbatim>\<open>error_token\<close>, a failed \<^verbatim>\<open>expect_and_get_next_token\<close>, overflow of a signed
  accumulator (undefined in C++), and a write through a pointer that is null or was
  never assigned.
\<close>

datatype parse_error =
    AssertionFailed string
  | ErrorToken string
  | UnexpectedToken string
  | SignedOverflow
  | InvalidPointer

type_synonym 'a parse = "parse_error + ('a \<times> Lexer)"

text \<open>
  Modelled from the spec: \<^verbatim>\<open>error_token\<close> and \<^verbatim>\<open>expect_and_get_next_token\<close> are
  defined in the lexer. By the interface the specification gives for the token source,
  \<^verbatim>\<open>error_token\<close> aborts the parse with its message, and
  \<^verbatim>\<open>expect_and_get_next_token\<close> fails with its message when the kind of the current
  token is not the expected one and otherwise advances and returns the new current
  token (in \<^verbatim>\<open>parse_pointer\<close> its result is named \<^verbatim>\<open>token_after_asterisk\<close>).
\<close>

definition error_token :: "Lexer \<Rightarrow> string \<Rightarrow> 'a parse" where
  "error_token lexer message = Inl (ErrorToken message)"

definition expect_and_get_next_token :: "Lexer \<Rightarrow> TokenType \<Rightarrow> string \<Rightarrow> parse_error + Lexer" where
  "expect_and_get_next_token lexer expected message =
     (if Token.type (get_current_token lexer) = expected then Inr (get_next_token lexer)
      else Inl (UnexpectedToken message))"

section \<open>AST nodes and declared objects\<close>

text \<open>
  Modelled from the spec: \<^verbatim>\<open>parser.h\<close> and \<^verbatim>\<open>type.h\<close> are not among the sources. The
  enumerations hold the values the sources name; \<open>DataType.UnsignedLong\<close> and the
  fundamental types other than \<open>Function\<close> come from the specification's suffix table
  and data model.
\<close>

datatype ASTNodeType = Void | Declaration | NumericConstant | Multiplication

datatype DataType = Void | Int | UnsignedInt | Long | UnsignedLong | LongLong | UnsignedLongLong

datatype FundamentalType =
  Void | Char | Short | Int | Long | Float | Double | Bool | Struct | Union | Enum | Typedef | Function

record Type =
  fundamental_type :: FundamentalType

text \<open>
  A node or object is allocated with \<^verbatim>\<open>malloc\<close>: a pointer field is \<open>None\<close> while it
  is null or was never assigned. \<open>data_as\<close> is the value stored in the union member
  that \<open>data_type\<close> selects; \<open>next_node\<close> is the field \<^verbatim>\<open>next\<close>.
\<close>

datatype ASTNode =
  ASTNode (type: ASTNodeType) (data_type: DataType) (data_as: "int option")
          (lhs: "ASTNode option") (rhs: "ASTNode option") (next_node: "ASTNode option")
          (object: "Object option")
and Object =
  Object (name: string) (type: "Type option") (function_body: "ASTNode option")

definition new_ast_node :: "ASTNodeType \<Rightarrow> ASTNode" where
  "new_ast_node t = ASTNode t DataType.Void None None None None None"

definition new_object :: Object where
  "new_object = Object [] None None"

text \<open>The assignments to one field of a node or object.\<close>

definition set_data :: "ASTNode \<Rightarrow> DataType \<Rightarrow> int \<Rightarrow> ASTNode" where
  "set_data node dt v =
     ASTNode (ASTNode.type node) dt (Some v) (lhs node) (rhs node) (next_node node) (object node)"

definition set_lhs_rhs :: "ASTNode \<Rightarrow> ASTNode \<Rightarrow> ASTNode \<Rightarrow> ASTNode" where
  "set_lhs_rhs node l r =
     ASTNode (ASTNode.type node) (data_type node) (data_as node) (Some l) (Some r) (next_node node)
       (object node)"

definition set_rhs :: "ASTNode \<Rightarrow> ASTNode \<Rightarrow> ASTNode" where
  "set_rhs node r =
     ASTNode (ASTNode.type node) (data_type node) (data_as node) (lhs node) (Some r) (next_node node)
       (object node)"

definition set_next :: "ASTNode \<Rightarrow> ASTNode option \<Rightarrow> ASTNode" where
  "set_next node n =
     ASTNode (ASTNode.type node) (data_type node) (data_as node) (lhs node) (rhs node) n
       (object node)"

definition set_object :: "ASTNode \<Rightarrow> Object \<Rightarrow> ASTNode" where
  "set_object node obj =
     ASTNode (ASTNode.type node) (data_type node) (data_as node) (lhs node) (rhs node)
       (next_node node) (Some obj)"

definition set_name :: "Object \<Rightarrow> string \<Rightarrow> Object" where
  "set_name obj s = Object s (Object.type obj) (function_body obj)"

definition set_function_body :: "Object \<Rightarrow> ASTNode option \<Rightarrow> Object" where
  "set_function_body obj body = Object (name obj) (Object.type obj) body"

text \<open>
  A sequence built by \<^verbatim>\<open>previous->next = current; previous = current\<close>: every node but
  the last gets the node after it as its \<^verbatim>\<open>next\<close>, the last keeps the \<^verbatim>\<open>next\<close> it came
  with. The result is the pointer to the first node.
\<close>

fun link_nodes :: "ASTNode list \<Rightarrow> ASTNode option" where
  "link_nodes [] = None"
| "link_nodes [node] = Some node"
| "link_nodes (node # node' # nodes) = Some (set_next node (link_nodes (node' # nodes)))"

section \<open>Numeric constants\<close>

definition hex_char_to_int :: "char \<Rightarrow> parse_error + int" where
  "hex_char_to_int c =
     (if (of_char (CHR ''0'') :: nat) \<le> of_char c \<and> (of_char c :: nat) \<le> of_char (CHR ''9'')
        then Inr (of_char c - of_char (CHR ''0''))
      else if (of_char (CHR ''a'') :: nat) \<le> of_char c \<and> (of_char c :: nat) \<le> of_char (CHR ''f'')
        then Inr (of_char c - of_char (CHR ''a'') + 10)
      else if (of_char (CHR ''A'') :: nat) \<le> of_char c \<and> (of_char c :: nat) \<le> of_char (CHR ''F'')
        then Inr (of_char c - of_char (CHR ''A'') + 10)
      else Inl (AssertionFailed ''hex_char_to_int got invalid hex digit''))"

definition decimal_to_int :: "char \<Rightarrow> parse_error + int" where
  "decimal_to_int c =
     (if (of_char (CHR ''0'') :: nat) \<le> of_char c \<and> (of_char c :: nat) \<le> of_char (CHR ''9'')
        then Inr (of_char c - of_char (CHR ''0''))
      else Inl (AssertionFailed ''c >= 0 && c <= 9''))"

definition octal_to_int :: "char \<Rightarrow> parse_error + int" where
  "octal_to_int c =
     (if (of_char (CHR ''0'') :: nat) \<le> of_char c \<and> (of_char c :: nat) \<le> of_char (CHR ''7'')
        then Inr (of_char c - of_char (CHR ''0''))
      else Inl (AssertionFailed ''c >= 0 && c <= 7''))"

definition binary_to_int :: "char \<Rightarrow> parse_error + int" where
  "binary_to_int c =
     (if (of_char (CHR ''0'') :: nat) \<le> of_char c \<and> (of_char c :: nat) \<le> of_char (CHR ''1'')
        then Inr (of_char c - of_char (CHR ''0''))
      else Inl (AssertionFailed ''c >= 0 && c <= 1''))"

text \<open>
  The five accumulators of \<^verbatim>\<open>parse_number\<close>, on an LP64 target: \<^verbatim>\<open>int\<close> is 32 bits,
  \<^verbatim>\<open>long\<close> and \<^verbatim>\<open>long long\<close> are 64. An unsigned accumulator wraps; leaving the range of
  a signed one is undefined in C++ and is an error of the model.
\<close>

definition unsigned_wrap :: "nat \<Rightarrow> int \<Rightarrow> parse_error + int" where
  "unsigned_wrap w v = Inr (v mod 2 ^ w)"

definition signed_range :: "nat \<Rightarrow> int \<Rightarrow> parse_error + int" where
  "signed_range w v =
     (if - (2 ^ (w - 1)) \<le> v \<and> v < 2 ^ (w - 1) then Inr v else Inl SignedOverflow)"

text \<open>
  The loop \<^verbatim>\<open>for (; index < n; index++) value = value * base + char_to_int_function(...)\<close>
  over the characters from \<^verbatim>\<open>index\<close> on.
\<close>

fun accumulate ::
  "(int \<Rightarrow> parse_error + int) \<Rightarrow> int \<Rightarrow> (char \<Rightarrow> parse_error + int) \<Rightarrow> string \<Rightarrow> int
     \<Rightarrow> parse_error + int" where
  "accumulate store base char_to_int_function [] v = Inr v"
| "accumulate store base char_to_int_function (c # cs) v =
     (case char_to_int_function c of
        Inl e \<Rightarrow> Inl e
      | Inr d \<Rightarrow>
          (case store (v * base + d) of
             Inl e \<Rightarrow> Inl e
           | Inr v' \<Rightarrow> accumulate store base char_to_int_function cs v'))"

text \<open>\<^verbatim>\<open>string[i]\<close> of a \<^verbatim>\<open>std::string\<close>: the terminating null at \<open>i = length\<close>.\<close>

definition char_at :: "string \<Rightarrow> nat \<Rightarrow> char" where
  "char_at s i = (if i < length s then s ! i else CHR 0x00)"

text \<open>The \<^verbatim>\<open>switch\<close> of \<^verbatim>\<open>parse_number\<close> on the kind of the token after the number.\<close>

fun suffix_data_type :: "TokenType \<Rightarrow> DataType" where
  "suffix_data_type TokenType.IntegerSuffixl = DataType.Long"
| "suffix_data_type TokenType.IntegerSuffixL = DataType.Long"
| "suffix_data_type TokenType.IntegerSuffixu = DataType.UnsignedInt"
| "suffix_data_type TokenType.IntegerSuffixU = DataType.UnsignedInt"
| "suffix_data_type TokenType.IntegerSuffixll = DataType.LongLong"
| "suffix_data_type TokenType.IntegerSuffixLL = DataType.LongLong"
| "suffix_data_type TokenType.IntegerSuffixull = DataType.UnsignedLongLong"
| "suffix_data_type TokenType.IntegerSuffixuLL = DataType.UnsignedLongLong"
| "suffix_data_type TokenType.IntegerSuffixllu = DataType.UnsignedLongLong"
| "suffix_data_type TokenType.IntegerSuffixLLu = DataType.UnsignedLongLong"
| "suffix_data_type TokenType.IntegerSuffixUll = DataType.UnsignedLongLong"
| "suffix_data_type TokenType.IntegerSuffixULL = DataType.UnsignedLongLong"
| "suffix_data_type TokenType.IntegerSuffixllU = DataType.UnsignedLongLong"
| "suffix_data_type TokenType.IntegerSuffixLLU = DataType.UnsignedLongLong"
| "suffix_data_type _ = DataType.Int"

fun accumulator :: "DataType \<Rightarrow> int \<Rightarrow> parse_error + int" where
  "accumulator DataType.Long = signed_range 64"
| "accumulator DataType.UnsignedInt = unsigned_wrap 32"
| "accumulator DataType.LongLong = signed_range 64"
| "accumulator DataType.UnsignedLongLong = unsigned_wrap 64"
| "accumulator _ = signed_range 32"

definition parse_number :: "Lexer \<Rightarrow> ASTNode parse" where
  "parse_number lexer =
     (let current_token = get_current_token lexer in
      if Token.type current_token \<noteq> TokenType.Number
        then Inl (AssertionFailed ''Parsing number but initial token type is not number'')
      else
        let s = Token.string current_token;
            c0 = char_at s 0;
            (base, index, char_to_int_function) =
              (if c0 = CHR ''0'' then
                 (let c1 = char_at s 1 in
                  if c1 = CHR ''x'' then (16, 2, hex_char_to_int)
                  else if c1 = CHR ''b'' then (2, 2, binary_to_int)
                  else (8, 1, octal_to_int))
               else (10, 0, decimal_to_int));
            number_node = new_ast_node ASTNodeType.NumericConstant;
            lexer' = get_next_token lexer;
            dt = suffix_data_type (Token.type (get_current_token lexer'))
        in case accumulate (accumulator dt) base char_to_int_function (drop index s) 0 of
             Inl e \<Rightarrow> Inl e
           | Inr v \<Rightarrow> Inr (set_data number_node dt v, lexer'))"

section \<open>Scopes\<close>

text \<open>
  Modelled from the spec: \<^verbatim>\<open>struct Scope\<close> is declared in a header that is not among
  the sources. It owns the set of ordinary identifiers, the set of typedef names and the
  link to the enclosing scope. A \<^verbatim>\<open>Scope *\<close> is a \<open>Scope option\<close>, \<open>None\<close> for
  \<^verbatim>\<open>nullptr\<close>: the chain of enclosing scopes is finite, and no function of the sources
  writes to a scope after it is set up.
\<close>

datatype Scope =
  Scope (variables: "string set") (typedef_names: "string set") (parent_scope: "Scope option")

fun variable_in_scope :: "string \<Rightarrow> Scope option \<Rightarrow> bool" where
  "variable_in_scope variable_name None = False"
| "variable_in_scope variable_name (Some (Scope vs ts parent)) =
     (if variable_name \<in> vs then True else variable_in_scope variable_name parent)"

fun typedef_name_in_scope :: "string \<Rightarrow> Scope option \<Rightarrow> bool" where
  "typedef_name_in_scope type_name None = False"
| "typedef_name_in_scope type_name (Some (Scope vs ts parent)) =
     (if type_name \<in> ts then True else typedef_name_in_scope type_name parent)"

section \<open>Expressions\<close>

text \<open>
  \<^verbatim>\<open>parse_primary_expression\<close>: the \<^verbatim>\<open>Identifier\<close> label has no statements of its own
  and shares the body of the \<^verbatim>\<open>Number\<close> label.
\<close>

definition parse_primary_expression :: "Lexer \<Rightarrow> Scope option \<Rightarrow> ASTNode parse" where
  "parse_primary_expression lexer scope =
     (let lexer' = get_next_token lexer;
          t = Token.type (get_current_token lexer')
      in if t = TokenType.Identifier \<or> t = TokenType.Number then parse_number lexer'
         else Inl (AssertionFailed ''Default case in parse_primary_expression''))"

definition new_binary_expression_node :: "ASTNodeType \<Rightarrow> ASTNode \<Rightarrow> ASTNode \<Rightarrow> ASTNode" where
  "new_binary_expression_node t l r = set_lhs_rhs (new_ast_node t) l r"

text \<open>
  \<^verbatim>\<open>parse_multiplicative_expression\<close>. \<^verbatim>\<open>parse_cast_expression\<close> is declared in
  \<^verbatim>\<open>parser.cpp\<close> and defined nowhere in the sources: it is the first argument. Every
  branch of the \<^verbatim>\<open>switch\<close> inside \<^verbatim>\<open>for (;;)\<close> returns, the labels \<^verbatim>\<open>ForwardSlash\<close> and
  \<^verbatim>\<open>Modulo\<close> sharing the body of \<^verbatim>\<open>default\<close>.
\<close>

definition parse_multiplicative_expression ::
  "(Lexer \<Rightarrow> ASTNode parse) \<Rightarrow> Lexer \<Rightarrow> ASTNode parse" where
  "parse_multiplicative_expression parse_cast_expression lexer =
     (case parse_cast_expression lexer of
        Inl e \<Rightarrow> Inl e
      | Inr (cast_expr, lexer1) \<Rightarrow>
          (let lexer2 = get_next_token lexer1 in
           if Token.type (get_current_token lexer2) = TokenType.Asterisk then
             (case parse_cast_expression lexer2 of
                Inl e \<Rightarrow> Inl e
              | Inr (r, lexer3) \<Rightarrow>
                  Inr (new_binary_expression_node ASTNodeType.Multiplication cast_expr r, lexer3))
           else Inr (cast_expr, lexer2)))"

section \<open>Declaration specifiers\<close>

definition token_is_type_qualifier :: "Token \<Rightarrow> bool" where
  "token_is_type_qualifier token =
     (Token.type token \<in>
        {TokenType.Const, TokenType.Restrict, TokenType.Volatile, TokenType.Atomic})"

definition token_is_storage_class_specifier :: "Token \<Rightarrow> bool" where
  "token_is_storage_class_specifier token =
     (Token.type token \<in>
        {TokenType.Typedef, TokenType.Extern, TokenType.Static, TokenType.ThreadLocal,
         TokenType.Auto, TokenType.Register})"

definition token_is_alignment_specifier :: "Token \<Rightarrow> bool" where
  "token_is_alignment_specifier token = (Token.type token = TokenType.AlignAs)"

definition token_is_function_specifier :: "Token \<Rightarrow> bool" where
  "token_is_function_specifier token =
     (Token.type token = TokenType.Inline \<or> Token.type token = TokenType.NoReturn)"

definition token_is_type_specifier :: "Token \<Rightarrow> Scope option \<Rightarrow> bool" where
  "token_is_type_specifier token scope =
     (if Token.type token \<in>
           {TokenType.Void, TokenType.Char, TokenType.Short, TokenType.Int, TokenType.Long,
            TokenType.Float, TokenType.Double, TokenType.Signed, TokenType.Unsigned,
            TokenType.Bool, TokenType.Complex, TokenType.Atomic, TokenType.Struct,
            TokenType.Enum, TokenType.Union}
        then True
      else typedef_name_in_scope (Token.string token) scope)"

definition token_is_declaration_specifier :: "Token \<Rightarrow> Scope option \<Rightarrow> bool" where
  "token_is_declaration_specifier token scope =
     (token_is_storage_class_specifier token \<or> token_is_type_specifier token scope \<or>
      token_is_type_qualifier token \<or> token_is_function_specifier token \<or>
      token_is_alignment_specifier token)"

text \<open>
  \<^verbatim>\<open>Declaration\<close> and \<^verbatim>\<open>update_declaration\<close> are not among the sources. Every
  function that calls \<^verbatim>\<open>update_declaration\<close>, directly or through a callee, takes it as
  the argument \<open>update_declaration\<close>, and takes the value of a default-constructed
  \<^verbatim>\<open>Declaration\<close> as the argument \<open>new_declaration\<close>. Folding a token into a
  declaration gives the updated declaration or stops the parse with an error, as the
  specification has it for conflicting specifiers.
\<close>

type_synonym 'd update_declaration = "Token \<Rightarrow> 'd \<Rightarrow> parse_error + 'd"

text \<open>
  The \<^verbatim>\<open>while\<close> loop of \<^verbatim>\<open>parse_declaration_specifiers\<close>, one iteration for each unit
  of fuel; \<open>None\<close> when the fuel runs out before the loop ends.
\<close>

fun declaration_specifiers_loop ::
  "nat \<Rightarrow> 'd update_declaration \<Rightarrow> 'd \<Rightarrow> Lexer \<Rightarrow> Scope option \<Rightarrow> 'd parse option" where
  "declaration_specifiers_loop 0 update_declaration declaration lexer scope = None"
| "declaration_specifiers_loop (Suc n) update_declaration declaration lexer scope =
     (if token_is_declaration_specifier (get_current_token lexer) scope then
        (case update_declaration (get_current_token lexer) declaration of
           Inl e \<Rightarrow> Some (Inl e)
         | Inr declaration' \<Rightarrow>
             declaration_specifiers_loop n update_declaration declaration'
               (get_next_token lexer) scope)
      else Some (Inr (declaration, lexer)))"

definition parse_declaration_specifiers ::
  "nat \<Rightarrow> 'd update_declaration \<Rightarrow> 'd \<Rightarrow> Lexer \<Rightarrow> Scope option \<Rightarrow> 'd parse option" where
  "parse_declaration_specifiers n update_declaration new_declaration lexer scope =
     declaration_specifiers_loop n update_declaration new_declaration lexer scope"

section \<open>Declarators\<close>

text \<open>
  The functions of this section recurse or loop over the tokens. Each takes fuel, one
  unit for every call or iteration, and answers \<open>None\<close> when the fuel runs out.
  A function declared to return \<^verbatim>\<open>Object *\<close> whose control reaches the closing brace
  without a \<^verbatim>\<open>return\<close> hands its caller no object: its value is \<open>None\<close>.
\<close>

text \<open>
  \<^verbatim>\<open>parse_type_qualifier_list\<close>: \<open>declaration\<close> is its local \<^verbatim>\<open>Declaration\<close>, which
  the function folds the qualifiers into and then drops.
\<close>

fun type_qualifier_list_loop ::
  "nat \<Rightarrow> 'd update_declaration \<Rightarrow> 'd \<Rightarrow> Lexer \<Rightarrow> (parse_error + Lexer) option" where
  "type_qualifier_list_loop 0 update_declaration declaration lexer = None"
| "type_qualifier_list_loop (Suc n) update_declaration declaration lexer =
     (if token_is_type_qualifier (get_current_token lexer) then
        (case update_declaration (get_current_token lexer) declaration of
           Inl e \<Rightarrow> Some (Inl e)
         | Inr declaration' \<Rightarrow>
             type_qualifier_list_loop n update_declaration declaration' (get_next_token lexer))
      else Some (Inr lexer))"

definition parse_type_qualifier_list ::
  "nat \<Rightarrow> 'd update_declaration \<Rightarrow> 'd \<Rightarrow> Lexer \<Rightarrow> (parse_error + Lexer) option" where
  "parse_type_qualifier_list n update_declaration new_declaration lexer =
     type_qualifier_list_loop n update_declaration new_declaration lexer"

fun parse_pointer ::
  "nat \<Rightarrow> 'd update_declaration \<Rightarrow> 'd \<Rightarrow> Lexer \<Rightarrow> (parse_error + Lexer) option" where
  "parse_pointer 0 update_declaration new_declaration lexer = None"
| "parse_pointer (Suc n) update_declaration new_declaration lexer =
     (case expect_and_get_next_token lexer TokenType.Asterisk ''Parsing pointer, expected *'' of
        Inl e \<Rightarrow> Some (Inl e)
      | Inr lexer1 \<Rightarrow>
          if Token.type (get_current_token lexer1) = TokenType.Asterisk
            then parse_pointer n update_declaration new_declaration lexer1
          else if token_is_type_qualifier (get_current_token lexer1)
            then parse_type_qualifier_list n update_declaration new_declaration lexer1
          else Some (Inr lexer1))"

text \<open>
  The second \<^verbatim>\<open>if\<close> of \<^verbatim>\<open>parse_direct_declarator\<close>, entered with the lexer as the
  parenthesis branch left it.
\<close>

definition direct_declarator_identifier :: "Lexer \<Rightarrow> Object option \<Rightarrow> (Object option) parse" where
  "direct_declarator_identifier lexer object0 =
     (let current_token = get_current_token lexer in
      if Token.type current_token = TokenType.Identifier then
        if object0 \<noteq> None
          then Inl (AssertionFailed
                 ''parse_direct_declarator: found identifier but object* is not null'')
        else
          let obj = set_name new_object (Token.string current_token)
          in if name obj = []
               then Inl (AssertionFailed
                      ''parse_direct_declarator: assigned null name string to new object'')
             else
               let lexer1 = get_next_token lexer;
                   t = Token.type (get_current_token lexer1)
               in if t = TokenType.Semicolon \<or> t = TokenType.Comma then Inr (Some obj, lexer1)
                  else if t = TokenType.LBracket \<or> t = TokenType.LParen then
                    (let lexer2 = get_next_token lexer1;
                         t' = Token.type (get_current_token lexer2)
                     in if t' = TokenType.Identifier \<or> t' = TokenType.RParen
                          then Inr (Some obj, lexer2)
                        else error_token lexer2
                               ''FIXME: default case in parse_direct_declarator'')
                  else error_token lexer1 ''FIXME: default case in parse_direct_declarator''
      else Inr (None, lexer))"

fun parse_declarator ::
    "nat \<Rightarrow> 'd update_declaration \<Rightarrow> 'd \<Rightarrow> Lexer \<Rightarrow> (Object option) parse option"
  and parse_direct_declarator ::
    "nat \<Rightarrow> 'd update_declaration \<Rightarrow> 'd \<Rightarrow> Lexer \<Rightarrow> Object option \<Rightarrow> (Object option) parse option"
where
  "parse_declarator 0 update_declaration new_declaration lexer = None"
| "parse_declarator (Suc n) update_declaration new_declaration lexer =
     (case (if Token.type (get_current_token lexer) = TokenType.Asterisk
              then parse_pointer n update_declaration new_declaration (get_next_token lexer)
            else Some (Inr lexer)) of
        None \<Rightarrow> None
      | Some (Inl e) \<Rightarrow> Some (Inl e)
      | Some (Inr lexer1) \<Rightarrow>
          (case parse_direct_declarator n update_declaration new_declaration lexer1 None of
             None \<Rightarrow> None
           | Some (Inl e) \<Rightarrow> Some (Inl e)
           | Some (Inr (declared, lexer2)) \<Rightarrow> Some (Inr (None, lexer2))))"
| "parse_direct_declarator 0 update_declaration new_declaration lexer object0 = None"
| "parse_direct_declarator (Suc n) update_declaration new_declaration lexer object0 =
     (if Token.type (get_current_token lexer) = TokenType.LParen then
        (case parse_declarator n update_declaration new_declaration (get_next_token lexer) of
           None \<Rightarrow> None
         | Some (Inl e) \<Rightarrow> Some (Inl e)
         | Some (Inr (inner, lexer1)) \<Rightarrow>
             (case expect_and_get_next_token lexer1 TokenType.RParen
                     ''parse_direct_declarator expected RParen'' of
                Inl e \<Rightarrow> Some (Inl e)
              | Inr lexer2 \<Rightarrow> Some (direct_declarator_identifier lexer2 object0)))
      else Some (direct_declarator_identifier lexer object0))"

text \<open>\<^verbatim>\<open>parse_initializer\<close> has an empty body: it reads no token.\<close>

definition parse_initializer :: "Lexer \<Rightarrow> Lexer" where
  "parse_initializer lexer = lexer"

definition parse_init_declarator ::
  "nat \<Rightarrow> 'd update_declaration \<Rightarrow> 'd \<Rightarrow> Lexer \<Rightarrow> ASTNode parse option" where
  "parse_init_declarator n update_declaration new_declaration lexer =
     (let ast_node = new_ast_node ASTNodeType.Declaration in
      case parse_declarator n update_declaration new_declaration lexer of
        None \<Rightarrow> None
      | Some (Inl e) \<Rightarrow> Some (Inl e)
      | Some (Inr (declared, lexer1)) \<Rightarrow>
          Some (Inr (ast_node,
                     if Token.type (get_current_token lexer1) = TokenType.Equals
                       then parse_initializer lexer1 else lexer1)))"

text \<open>
  The \<^verbatim>\<open>while\<close> loop of \<^verbatim>\<open>parse_declaration\<close>; \<open>nodes\<close> are the nodes linked behind
  the first node \<^verbatim>\<open>ast_node\<close>, whose \<^verbatim>\<open>next\<close> the function returns.
\<close>

fun init_declarator_list ::
  "nat \<Rightarrow> 'd update_declaration \<Rightarrow> 'd \<Rightarrow> Lexer \<Rightarrow> ASTNode list \<Rightarrow> (ASTNode option) parse option" where
  "init_declarator_list 0 update_declaration new_declaration lexer nodes = None"
| "init_declarator_list (Suc n) update_declaration new_declaration lexer nodes =
     (if Token.type (get_current_token lexer) \<noteq> TokenType.Semicolon then
        (case parse_init_declarator n update_declaration new_declaration lexer of
           None \<Rightarrow> None
         | Some (Inl e) \<Rightarrow> Some (Inl e)
         | Some (Inr (node, lexer1)) \<Rightarrow>
             init_declarator_list n update_declaration new_declaration lexer1 (nodes @ [node]))
      else Some (Inr (link_nodes nodes, lexer)))"

definition parse_declaration ::
  "nat \<Rightarrow> 'd update_declaration \<Rightarrow> 'd \<Rightarrow> Lexer \<Rightarrow> Scope option \<Rightarrow> (ASTNode option) parse option" where
  "parse_declaration n update_declaration new_declaration lexer scope =
     (if \<not> token_is_declaration_specifier (get_current_token lexer) scope
        then Some (Inl (AssertionFailed
               ''parse_declaration: starting but current token is not a declaration specifier''))
      else
        (case parse_declaration_specifiers n update_declaration new_declaration lexer scope of
           None \<Rightarrow> None
         | Some (Inl e) \<Rightarrow> Some (Inl e)
         | Some (Inr (declaration, lexer1)) \<Rightarrow>
             init_declarator_list n update_declaration new_declaration lexer1 []))"

section \<open>Statements\<close>

text \<open>
  The six statement forms that the \<^verbatim>\<open>switch\<close> of \<^verbatim>\<open>parse_statement\<close> tells apart by
  the kind of the current token.
\<close>

datatype statement_form = Labeled | Compound | Selection | Iteration | Jump | Expression

fun statement_form_of :: "TokenType \<Rightarrow> statement_form" where
  "statement_form_of TokenType.Identifier = Labeled"
| "statement_form_of TokenType.Case = Labeled"
| "statement_form_of TokenType.Default = Labeled"
| "statement_form_of TokenType.LBrace = Compound"
| "statement_form_of TokenType.If = Selection"
| "statement_form_of TokenType.Switch = Selection"
| "statement_form_of TokenType.While = Iteration"
| "statement_form_of TokenType.For = Iteration"
| "statement_form_of TokenType.Do = Iteration"
| "statement_form_of TokenType.GoTo = Jump"
| "statement_form_of TokenType.Continue = Jump"
| "statement_form_of TokenType.Break = Jump"
| "statement_form_of TokenType.Return = Jump"
| "statement_form_of _ = Expression"

definition parse_labeled_statement :: "Lexer \<Rightarrow> Scope option \<Rightarrow> (ASTNode option) parse" where
  "parse_labeled_statement lexer scope = Inr (Some (new_ast_node ASTNodeType.Void), lexer)"

definition parse_expression_statement :: "Lexer \<Rightarrow> Scope option \<Rightarrow> (ASTNode option) parse" where
  "parse_expression_statement lexer scope = Inr (Some (new_ast_node ASTNodeType.Void), lexer)"

definition parse_selection_statement :: "Lexer \<Rightarrow> Scope option \<Rightarrow> (ASTNode option) parse" where
  "parse_selection_statement lexer scope = Inr (Some (new_ast_node ASTNodeType.Void), lexer)"

definition parse_iteration_statement :: "Lexer \<Rightarrow> Scope option \<Rightarrow> (ASTNode option) parse" where
  "parse_iteration_statement lexer scope = Inr (Some (new_ast_node ASTNodeType.Void), lexer)"

text \<open>
  \<^verbatim>\<open>parse_jump_statement\<close>. \<^verbatim>\<open>parse_expression\<close> is not among the sources: it is the
  first argument. The call \<^verbatim>\<open>get_next_token(lexer)\<close> written between the head of the
  \<^verbatim>\<open>switch\<close> and its first label is never executed. The body of each label runs on into
  the next one: \<open>jump_continue_break\<close> is the body shared by \<^verbatim>\<open>Continue\<close> and
  \<^verbatim>\<open>Break\<close>, \<open>jump_return\<close> the body of \<^verbatim>\<open>Return\<close> followed by it.
\<close>

definition jump_continue_break :: "Lexer \<Rightarrow> ASTNode \<Rightarrow> (ASTNode option) parse" where
  "jump_continue_break lexer ast_node =
     (case expect_and_get_next_token lexer TokenType.Semicolon
             ''Expected semicolon after jump statement'' of
        Inl e \<Rightarrow> Inl e
      | Inr lexer1 \<Rightarrow> Inr (Some ast_node, lexer1))"

definition jump_return ::
  "(Lexer \<Rightarrow> Scope option \<Rightarrow> ASTNode parse) \<Rightarrow> Lexer \<Rightarrow> Scope option \<Rightarrow> ASTNode
     \<Rightarrow> (ASTNode option) parse" where
  "jump_return parse_expression lexer scope ast_node =
     (let lexer1 = get_next_token lexer in
      if Token.type (get_current_token lexer1) \<noteq> TokenType.Semicolon then
        (case parse_expression lexer1 scope of
           Inl e \<Rightarrow> Inl e
         | Inr (return_value_node, lexer2) \<Rightarrow>
             jump_continue_break lexer2 (set_rhs ast_node return_value_node))
      else jump_continue_break lexer1 ast_node)"

definition parse_jump_statement ::
  "(Lexer \<Rightarrow> Scope option \<Rightarrow> ASTNode parse) \<Rightarrow> Lexer \<Rightarrow> Scope option \<Rightarrow> (ASTNode option) parse" where
  "parse_jump_statement parse_expression lexer scope =
     (let ast_node = new_ast_node ASTNodeType.Void;
          t = Token.type (get_current_token lexer)
      in if t = TokenType.GoTo then
           (let identifier_token = get_current_token lexer in
            if Token.type identifier_token \<noteq> TokenType.Identifier
              then error_token lexer ''Expected identifier after goto''
            else jump_return parse_expression lexer scope ast_node)
         else if t = TokenType.Return then jump_return parse_expression lexer scope ast_node
         else if t = TokenType.Continue \<or> t = TokenType.Break
           then jump_continue_break lexer ast_node
         else Inl (AssertionFailed ''false''))"

text \<open>
  \<^verbatim>\<open>parse_compound_statement\<close>, with the two parsers it calls for the items of the
  block as its first arguments. \<open>nodes\<close> are the items linked behind the anchor so
  far; \<open>previous\<close> tells whether \<^verbatim>\<open>previous_ast_node\<close> points to a node: an item parser
  that returns a null or never-assigned pointer leaves it pointing nowhere, and the
  next item would be linked through it.
\<close>

fun compound_statement_loop ::
  "(Lexer \<Rightarrow> Scope option \<Rightarrow> (ASTNode option) parse option) \<Rightarrow>
   (Lexer \<Rightarrow> Scope option \<Rightarrow> (ASTNode option) parse option) \<Rightarrow>
   nat \<Rightarrow> Lexer \<Rightarrow> Scope option \<Rightarrow> ASTNode list \<Rightarrow> bool \<Rightarrow> (ASTNode option) parse option" where
  "compound_statement_loop declaration_parser statement_parser 0 lexer scope nodes previous = None"
| "compound_statement_loop declaration_parser statement_parser (Suc n) lexer scope nodes previous =
     (if Token.type (get_current_token lexer) \<noteq> TokenType.RBrace then
        (case (if token_is_declaration_specifier (get_current_token lexer) scope
                 then declaration_parser lexer scope
               else statement_parser lexer scope) of
           None \<Rightarrow> None
         | Some (Inl e) \<Rightarrow> Some (Inl e)
         | Some (Inr (current_ast_node, lexer1)) \<Rightarrow>
             if \<not> previous then Some (Inl InvalidPointer)
             else (case current_ast_node of
                     None \<Rightarrow>
                       compound_statement_loop declaration_parser statement_parser n lexer1 scope nodes False
                   | Some node \<Rightarrow>
                       compound_statement_loop declaration_parser statement_parser n lexer1 scope
                         (nodes @ [node]) True))
      else Some (Inr (link_nodes nodes, get_next_token lexer)))"

definition parse_compound_statement_with ::
  "(Lexer \<Rightarrow> Scope option \<Rightarrow> (ASTNode option) parse option) \<Rightarrow>
   (Lexer \<Rightarrow> Scope option \<Rightarrow> (ASTNode option) parse option) \<Rightarrow>
   nat \<Rightarrow> Lexer \<Rightarrow> Scope option \<Rightarrow> (ASTNode option) parse option" where
  "parse_compound_statement_with declaration_parser statement_parser n lexer scope =
     (if Token.type (get_current_token lexer) \<noteq> TokenType.LBrace
        then Some (Inl (AssertionFailed
               ''get_current_token(lexer)->type == TokenType::LBrace''))
      else compound_statement_loop declaration_parser statement_parser n (get_next_token lexer) scope [] True)"

text \<open>
  The \<^verbatim>\<open>switch\<close> of \<^verbatim>\<open>parse_statement\<close>, with the six parsers it chooses from as
  its first arguments.
\<close>

definition parse_statement_with ::
  "(Lexer \<Rightarrow> Scope option \<Rightarrow> 'r) \<Rightarrow> (Lexer \<Rightarrow> Scope option \<Rightarrow> 'r) \<Rightarrow>
   (Lexer \<Rightarrow> Scope option \<Rightarrow> 'r) \<Rightarrow> (Lexer \<Rightarrow> Scope option \<Rightarrow> 'r) \<Rightarrow>
   (Lexer \<Rightarrow> Scope option \<Rightarrow> 'r) \<Rightarrow> (Lexer \<Rightarrow> Scope option \<Rightarrow> 'r) \<Rightarrow>
   Lexer \<Rightarrow> Scope option \<Rightarrow> 'r" where
  "parse_statement_with labeled_statement compound_statement selection_statement
     iteration_statement jump_statement expression_statement lexer scope =
     (case statement_form_of (Token.type (get_current_token lexer)) of
        Labeled \<Rightarrow> labeled_statement lexer scope
      | Compound \<Rightarrow> compound_statement lexer scope
      | Selection \<Rightarrow> selection_statement lexer scope
      | Iteration \<Rightarrow> iteration_statement lexer scope
      | Jump \<Rightarrow> jump_statement lexer scope
      | Expression \<Rightarrow> expression_statement lexer scope)"

text \<open>
  \<^verbatim>\<open>parse_statement\<close> and \<^verbatim>\<open>parse_compound_statement\<close> call each other: the fuel
  counts the nesting of blocks as well as the iterations of each block's loop.
\<close>

primrec parse_statement ::
  "nat \<Rightarrow> 'd update_declaration \<Rightarrow> 'd \<Rightarrow> (Lexer \<Rightarrow> Scope option \<Rightarrow> ASTNode parse) \<Rightarrow>
     Lexer \<Rightarrow> Scope option \<Rightarrow> (ASTNode option) parse option" where
  "parse_statement 0 update_declaration new_declaration parse_expression lexer scope = None"
| "parse_statement (Suc n) update_declaration new_declaration parse_expression lexer scope =
     parse_statement_with
       (\<lambda>l s. Some (parse_labeled_statement l s))
       (parse_compound_statement_with (parse_declaration n update_declaration new_declaration)
          (parse_statement n update_declaration new_declaration parse_expression) n)
       (\<lambda>l s. Some (parse_selection_statement l s))
       (\<lambda>l s. Some (parse_iteration_statement l s))
       (\<lambda>l s. Some (parse_jump_statement parse_expression l s))
       (\<lambda>l s. Some (parse_expression_statement l s))
       lexer scope"

definition parse_compound_statement ::
  "nat \<Rightarrow> 'd update_declaration \<Rightarrow> 'd \<Rightarrow> (Lexer \<Rightarrow> Scope option \<Rightarrow> ASTNode parse) \<Rightarrow>
     Lexer \<Rightarrow> Scope option \<Rightarrow> (ASTNode option) parse option" where
  "parse_compound_statement n update_declaration new_declaration parse_expression lexer scope =
     parse_compound_statement_with (parse_declaration n update_declaration new_declaration)
       (parse_statement n update_declaration new_declaration parse_expression) n lexer scope"

section \<open>The translation unit\<close>

text \<open>
  Modelled from the spec: \<^verbatim>\<open>ExternalDeclaration\<close> is declared in a header that is not
  among the sources. The list linked through its \<^verbatim>\<open>next\<close> is a list, in the order in
  which the entries were linked.
\<close>

datatype ExternalDeclarationType = Declaration | FunctionDefinition

record ExternalDeclaration =
  type :: ExternalDeclarationType
  root_ast_node :: ASTNode

definition new_external_declaration :: "ExternalDeclarationType \<Rightarrow> ASTNode \<Rightarrow> ExternalDeclaration" where
  "new_external_declaration t head_node = \<lparr>type = t, root_ast_node = head_node\<rparr>"

text \<open>
  The \<^verbatim>\<open>for\<close> loop of \<^verbatim>\<open>parse_translation_unit\<close>. Four functions it calls are not
  among the sources and are arguments, behind the two of the fold:
  \<^verbatim>\<open>declaration_to_fundamental_type\<close> (its two callees are missing), the
  \<^verbatim>\<open>parse_declarator\<close> that takes the base type and the scope,
  \<^verbatim>\<open>parse_rest_of_declaration\<close>, which returns the node it was handed as it leaves
  it, and \<^verbatim>\<open>parse_expression\<close>. \<open>declarations\<close> are the entries linked behind the
  anchor so far.
\<close>

fun translation_unit_loop ::
  "'d update_declaration \<Rightarrow> 'd \<Rightarrow>
   ('d \<Rightarrow> Type) \<Rightarrow>
   (Lexer \<Rightarrow> Type \<Rightarrow> Scope option \<Rightarrow> Object parse) \<Rightarrow>
   (Lexer \<Rightarrow> Scope option \<Rightarrow> ASTNode \<Rightarrow> ASTNode parse) \<Rightarrow>
   (Lexer \<Rightarrow> Scope option \<Rightarrow> ASTNode parse) \<Rightarrow>
   nat \<Rightarrow> Lexer \<Rightarrow> Scope option \<Rightarrow> ExternalDeclaration list \<Rightarrow>
     (parse_error + ExternalDeclaration list) option" where
  "translation_unit_loop update_declaration new_declaration declaration_to_fundamental_type
     parse_declarator_typed parse_rest_of_declaration parse_expression 0 lexer scope
     declarations = None"
| "translation_unit_loop update_declaration new_declaration declaration_to_fundamental_type
     parse_declarator_typed parse_rest_of_declaration parse_expression (Suc n) lexer scope
     declarations =
     (if Token.type (get_current_token lexer) \<noteq> TokenType.Eof then
        if \<not> token_is_declaration_specifier (get_current_token lexer) scope
          then Some (Inl (ErrorToken ''Expected declaration specifier''))
        else
          (case parse_declaration_specifiers n update_declaration new_declaration lexer scope of
             None \<Rightarrow> None
           | Some (Inl e) \<Rightarrow> Some (Inl e)
           | Some (Inr (declaration_specifiers, lexer1)) \<Rightarrow>
               (let fundamental_type_ptr = declaration_to_fundamental_type declaration_specifiers;
                    ast_node = new_ast_node ASTNodeType.Declaration
                in case parse_declarator_typed lexer1 fundamental_type_ptr scope of
                     Inl e \<Rightarrow> Some (Inl e)
                   | Inr (obj, lexer2) \<Rightarrow>
                       (case Object.type obj of
                          None \<Rightarrow> Some (Inl InvalidPointer)
                        | Some t \<Rightarrow>
                            if fundamental_type t = FundamentalType.Function \<and>
                               Token.type (get_current_token lexer2) = TokenType.LBrace
                            then
                              (case parse_compound_statement n update_declaration
                                      new_declaration parse_expression lexer2 scope of
                                 None \<Rightarrow> None
                               | Some (Inl e) \<Rightarrow> Some (Inl e)
                               | Some (Inr (body, lexer3)) \<Rightarrow>
                                   translation_unit_loop update_declaration new_declaration
                                     declaration_to_fundamental_type
                                     parse_declarator_typed parse_rest_of_declaration
                                     parse_expression n lexer3 scope
                                     (declarations @
                                      [new_external_declaration
                                         ExternalDeclarationType.FunctionDefinition
                                         (set_object ast_node (set_function_body obj body))]))
                            else
                              (case parse_rest_of_declaration lexer2 scope
                                      (set_object ast_node obj) of
                                 Inl e \<Rightarrow> Some (Inl e)
                               | Inr (ast_node', lexer3) \<Rightarrow>
                                   translation_unit_loop update_declaration new_declaration
                                     declaration_to_fundamental_type
                                     parse_declarator_typed parse_rest_of_declaration
                                     parse_expression n lexer3 scope
                                     (declarations @
                                      [new_external_declaration
                                         ExternalDeclarationType.Declaration ast_node'])))))
      else Some (Inr declarations))"

text \<open>
  \<^verbatim>\<open>parse_translation_unit\<close>, from the lexer that \<^verbatim>\<open>new_lexer(file)\<close> returns: the
  global scope is a fresh scope with no parent, and the first token is read before the
  loop starts.
\<close>

definition parse_translation_unit ::
  "'d update_declaration \<Rightarrow> 'd \<Rightarrow>
   ('d \<Rightarrow> Type) \<Rightarrow>
   (Lexer \<Rightarrow> Type \<Rightarrow> Scope option \<Rightarrow> Object parse) \<Rightarrow>
   (Lexer \<Rightarrow> Scope option \<Rightarrow> ASTNode \<Rightarrow> ASTNode parse) \<Rightarrow>
   (Lexer \<Rightarrow> Scope option \<Rightarrow> ASTNode parse) \<Rightarrow>
   nat \<Rightarrow> Lexer \<Rightarrow> (parse_error + ExternalDeclaration list) option" where
  "parse_translation_unit update_declaration new_declaration declaration_to_fundamental_type
     parse_declarator_typed parse_rest_of_declaration parse_expression n lexer =
     translation_unit_loop update_declaration new_declaration declaration_to_fundamental_type
       parse_declarator_typed parse_rest_of_declaration parse_expression n
       (get_next_token lexer) (Some (Scope {} {} None)) []"

section \<open>Notions used in the statements\<close>

text \<open>
  The scopes a lookup that starts at \<open>scope\<close> can visit, innermost first, and the
  token \<open>i\<close> places after the current one.
\<close>

fun scope_chain :: "Scope option \<Rightarrow> Scope list" where
  "scope_chain None = []"
| "scope_chain (Some (Scope vs ts parent)) = Scope vs ts parent # scope_chain parent"

definition token_at :: "Lexer \<Rightarrow> nat \<Rightarrow> Token" where
  "token_at lexer i = get_current_token ((get_next_token ^^ i) lexer)"

text \<open>
  Folding a list of tokens into a declaration, from the left, up to the first token
  whose folding fails.
\<close>

fun fold_declaration :: "'d update_declaration \<Rightarrow> Token list \<Rightarrow> 'd \<Rightarrow> parse_error + 'd" where
  "fold_declaration update_declaration [] declaration = Inr declaration"
| "fold_declaration update_declaration (token # tokens) declaration =
     (case update_declaration token declaration of
        Inl e \<Rightarrow> Inl e
      | Inr declaration' \<Rightarrow> fold_declaration update_declaration tokens declaration')"


section \<open>Numeric constants: the suffix table\<close>

text \<open>
  Whatever token follows the number, \<^verbatim>\<open>parse_number\<close> tags the node with one of five
  types; \<^verbatim>\<open>unsigned long\<close> is not among them.
\<close>

lemma parse_number_data_types:
  assumes "parse_number lexer = Inr (node, lexer')"
  shows "data_type node \<in> {DataType.Int, DataType.UnsignedInt, DataType.Long,
           DataType.LongLong, DataType.UnsignedLongLong}"
proof -
  obtain dt v where "node = set_data (new_ast_node ASTNodeType.NumericConstant) dt v"
    and "dt = suffix_data_type (Token.type (get_current_token (get_next_token lexer)))"
    using assms unfolding parse_number_def Let_def
    by (auto split: if_splits sum.splits prod.splits)
  moreover have "suffix_data_type t \<in> {DataType.Int, DataType.UnsignedInt, DataType.Long,
           DataType.LongLong, DataType.UnsignedLongLong}" for t
    by (cases t) simp_all
  ultimately show ?thesis by (simp add: set_data_def)
qed

text \<open>
  Claim C2. The literal \<^verbatim>\<open>0x10UL\<close>, the number token \<^verbatim>\<open>0x10\<close> followed by the suffix
  token \<^verbatim>\<open>UL\<close>, should parse as the unsigned long 16. The \<^verbatim>\<open>switch\<close> of
  \<^verbatim>\<open>parse_number\<close> has no label for the \<open>ul\<close>/\<open>lu\<close> suffixes: the token falls to
  \<^verbatim>\<open>default\<close>, and the value 16, read in base 16 as the claim says, is tagged
  \<^verbatim>\<open>int\<close>.
\<close>

theorem parse_number_0x10UL:
  "parse_number
     \<lparr>current_token = \<lparr>Token.type = TokenType.Number, string = ''0x10''\<rparr>,
      remaining = [\<lparr>Token.type = TokenType.IntegerSuffixUL, string = ''UL''\<rparr>]\<rparr> =
   Inr (ASTNode ASTNodeType.NumericConstant DataType.Int (Some 16) None None None None,
        \<lparr>current_token = \<lparr>Token.type = TokenType.IntegerSuffixUL, string = ''UL''\<rparr>,
         remaining = []\<rparr>)"
  by (simp add: parse_number_def get_current_token_def get_next_token_def char_at_def
        hex_char_to_int_def new_ast_node_def set_data_def signed_range_def)

section \<open>Primary expressions\<close>

text \<open>
  Claim C9. A primary expression that is an identifier should yield a node recording the
  identifier, and an identifier should never be treated as a numeric constant. In
  \<^verbatim>\<open>parse_primary_expression\<close> the label \<^verbatim>\<open>Identifier\<close> runs into the body of
  \<^verbatim>\<open>Number\<close>: the identifier is handed to \<^verbatim>\<open>parse_number\<close>, whose first assertion
  fails. No node is produced.
\<close>

theorem parse_primary_expression_identifier:
  "Token.type (get_current_token (get_next_token lexer)) = TokenType.Identifier \<Longrightarrow>
   parse_primary_expression lexer scope =
     Inl (AssertionFailed ''Parsing number but initial token type is not number'')"
  by (simp add: parse_primary_expression_def parse_number_def)

theorem parse_primary_expression_identifier_witness:
  "Token.type (get_current_token (get_next_token
      \<lparr>current_token = \<lparr>Token.type = TokenType.Equals, string = ''=''\<rparr>,
       remaining = [\<lparr>Token.type = TokenType.Identifier, string = ''x''\<rparr>,
                    \<lparr>Token.type = TokenType.Semicolon, string = '';''\<rparr>]\<rparr>)) =
     TokenType.Identifier \<and>
   parse_primary_expression
      \<lparr>current_token = \<lparr>Token.type = TokenType.Equals, string = ''=''\<rparr>,
       remaining = [\<lparr>Token.type = TokenType.Identifier, string = ''x''\<rparr>,
                    \<lparr>Token.type = TokenType.Semicolon, string = '';''\<rparr>]\<rparr> None =
     Inl (AssertionFailed ''Parsing number but initial token type is not number'')"
proof -
  have h: "Token.type (get_current_token (get_next_token
      \<lparr>current_token = \<lparr>Token.type = TokenType.Equals, string = ''=''\<rparr>,
       remaining = [\<lparr>Token.type = TokenType.Identifier, string = ''x''\<rparr>,
                    \<lparr>Token.type = TokenType.Semicolon, string = '';''\<rparr>]\<rparr>)) =
     TokenType.Identifier"
    by (simp add: get_current_token_def get_next_token_def)
  show ?thesis using h parse_primary_expression_identifier [OF h, of None] by simp
qed

section \<open>Multiplicative expressions\<close>

text \<open>
  Whatever the operand parser, \<^verbatim>\<open>parse_multiplicative_expression\<close> returns either its
  first operand alone or one multiplication of its first two operands: it applies at
  most one operator, and never \<^verbatim>\<open>/\<close> or \<^verbatim>\<open>%\<close>.
\<close>

lemma parse_multiplicative_expression_root:
  assumes "parse_multiplicative_expression parse_cast_expression lexer = Inr (node, lexer')"
  shows "(\<exists>lexer1. parse_cast_expression lexer = Inr (node, lexer1) \<and>
            lexer' = get_next_token lexer1) \<or>
         (\<exists>a b lexer1. parse_cast_expression lexer = Inr (a, lexer1) \<and>
            Token.type (get_current_token (get_next_token lexer1)) = TokenType.Asterisk \<and>
            parse_cast_expression (get_next_token lexer1) = Inr (b, lexer') \<and>
            node = new_binary_expression_node ASTNodeType.Multiplication a b)"
  using assms unfolding parse_multiplicative_expression_def Let_def
  by (auto split: sum.splits prod.splits if_splits)

text \<open>
  Claim C4. A chain such as \<^verbatim>\<open>1 * 2 / 3\<close> should yield a left-associated tree whose root
  is the last operator applied, here \<^verbatim>\<open>/\<close>. The operands are read by
  \<^verbatim>\<open>parse_primary_expression\<close>, the one expression parser below the multiplicative level
  that the sources define. On \<^verbatim>\<open>1 * 2 / 3\<close> the result is the constant 1 alone: reading
  the number has already moved past \<^verbatim>\<open>*\<close>, and the token inspected for an operator is
  \<^verbatim>\<open>2\<close>. On \<^verbatim>\<open>1u * 2u / 3u\<close>, where each number is followed by a suffix token, the result
  is the product of 1 and 2, and \<^verbatim>\<open>/ 3u\<close> is left unread: the function returns from
  inside its loop after the first operator.
\<close>

theorem parse_multiplicative_expression_chain:
  "parse_multiplicative_expression (\<lambda>l. parse_primary_expression l None)
     \<lparr>current_token = \<lparr>Token.type = TokenType.Equals, string = ''=''\<rparr>,
      remaining = [\<lparr>Token.type = TokenType.Number, string = ''1''\<rparr>,
                   \<lparr>Token.type = TokenType.Asterisk, string = ''*''\<rparr>,
                   \<lparr>Token.type = TokenType.Number, string = ''2''\<rparr>,
                   \<lparr>Token.type = TokenType.ForwardSlash, string = ''/''\<rparr>,
                   \<lparr>Token.type = TokenType.Number, string = ''3''\<rparr>,
                   \<lparr>Token.type = TokenType.Semicolon, string = '';''\<rparr>]\<rparr> =
   Inr (ASTNode ASTNodeType.NumericConstant DataType.Int (Some 1) None None None None,
        \<lparr>current_token = \<lparr>Token.type = TokenType.Number, string = ''2''\<rparr>,
         remaining = [\<lparr>Token.type = TokenType.ForwardSlash, string = ''/''\<rparr>,
                      \<lparr>Token.type = TokenType.Number, string = ''3''\<rparr>,
                      \<lparr>Token.type = TokenType.Semicolon, string = '';''\<rparr>]\<rparr>) \<and>
   parse_multiplicative_expression (\<lambda>l. parse_primary_expression l None)
     \<lparr>current_token = \<lparr>Token.type = TokenType.Equals, string = ''=''\<rparr>,
      remaining = [\<lparr>Token.type = TokenType.Number, string = ''1''\<rparr>,
                   \<lparr>Token.type = TokenType.IntegerSuffixu, string = ''u''\<rparr>,
                   \<lparr>Token.type = TokenType.Asterisk, string = ''*''\<rparr>,
                   \<lparr>Token.type = TokenType.Number, string = ''2''\<rparr>,
                   \<lparr>Token.type = TokenType.IntegerSuffixu, string = ''u''\<rparr>,
                   \<lparr>Token.type = TokenType.ForwardSlash, string = ''/''\<rparr>,
                   \<lparr>Token.type = TokenType.Number, string = ''3''\<rparr>,
                   \<lparr>Token.type = TokenType.IntegerSuffixu, string = ''u''\<rparr>,
                   \<lparr>Token.type = TokenType.Semicolon, string = '';''\<rparr>]\<rparr> =
   Inr (ASTNode ASTNodeType.Multiplication DataType.Void None
          (Some (ASTNode ASTNodeType.NumericConstant DataType.UnsignedInt (Some 1)
                   None None None None))
          (Some (ASTNode ASTNodeType.NumericConstant DataType.UnsignedInt (Some 2)
                   None None None None))
          None None,
        \<lparr>current_token = \<lparr>Token.type = TokenType.IntegerSuffixu, string = ''u''\<rparr>,
         remaining = [\<lparr>Token.type = TokenType.ForwardSlash, string = ''/''\<rparr>,
                      \<lparr>Token.type = TokenType.Number, string = ''3''\<rparr>,
                      \<lparr>Token.type = TokenType.IntegerSuffixu, string = ''u''\<rparr>,
                      \<lparr>Token.type = TokenType.Semicolon, string = '';''\<rparr>]\<rparr>)"
  by (simp add: parse_multiplicative_expression_def parse_primary_expression_def parse_number_def
        get_current_token_def get_next_token_def char_at_def decimal_to_int_def
        new_ast_node_def set_data_def set_lhs_rhs_def new_binary_expression_node_def
        signed_range_def unsigned_wrap_def)

section \<open>Jump statements\<close>

text \<open>
  Claim C6. For \<^verbatim>\<open>goto\<close> the parser should consume the keyword, require an identifier
  and then a semicolon. The call that consumes the keyword is never executed, so the
  token tested for being an identifier is \<^verbatim>\<open>goto\<close> itself: every \<^verbatim>\<open>goto\<close> statement,
  \<^verbatim>\<open>goto L;\<close> as well as \<^verbatim>\<open>goto 5;\<close>, stops with the message about the missing
  identifier.
\<close>

theorem parse_jump_statement_goto:
  "Token.type (get_current_token lexer) = TokenType.GoTo \<Longrightarrow>
   parse_jump_statement parse_expression lexer scope =
     Inl (ErrorToken ''Expected identifier after goto'')"
  by (simp add: parse_jump_statement_def error_token_def)

theorem parse_jump_statement_goto_witness:
  "Token.type (get_current_token
      \<lparr>current_token = \<lparr>Token.type = TokenType.GoTo, string = ''goto''\<rparr>,
       remaining = [\<lparr>Token.type = TokenType.Identifier, string = ''L''\<rparr>,
                    \<lparr>Token.type = TokenType.Semicolon, string = '';''\<rparr>]\<rparr>) = TokenType.GoTo \<and>
   parse_jump_statement (\<lambda>l s. parse_primary_expression l s)
      \<lparr>current_token = \<lparr>Token.type = TokenType.GoTo, string = ''goto''\<rparr>,
       remaining = [\<lparr>Token.type = TokenType.Identifier, string = ''L''\<rparr>,
                    \<lparr>Token.type = TokenType.Semicolon, string = '';''\<rparr>]\<rparr> None =
     Inl (ErrorToken ''Expected identifier after goto'')"
proof -
  have h: "Token.type (get_current_token
      \<lparr>current_token = \<lparr>Token.type = TokenType.GoTo, string = ''goto''\<rparr>,
       remaining = [\<lparr>Token.type = TokenType.Identifier, string = ''L''\<rparr>,
                    \<lparr>Token.type = TokenType.Semicolon, string = '';''\<rparr>]\<rparr>) = TokenType.GoTo"
    by (simp add: get_current_token_def)
  show ?thesis
    using h parse_jump_statement_goto [OF h, of "\<lambda>l s. parse_primary_expression l s" None]
    by simp
qed

section \<open>Statement dispatch\<close>

lemma parse_statement_with_dispatch:
  "parse_statement_with labeled_statement compound_statement selection_statement
     iteration_statement jump_statement expression_statement lexer scope =
     (let t = Token.type (get_current_token lexer) in
      if t = TokenType.Identifier \<or> t = TokenType.Case \<or> t = TokenType.Default
        then labeled_statement lexer scope
      else if t = TokenType.LBrace then compound_statement lexer scope
      else if t = TokenType.If \<or> t = TokenType.Switch then selection_statement lexer scope
      else if t = TokenType.While \<or> t = TokenType.For \<or> t = TokenType.Do
        then iteration_statement lexer scope
      else if t = TokenType.GoTo \<or> t = TokenType.Continue \<or> t = TokenType.Break \<or>
              t = TokenType.Return
        then jump_statement lexer scope
      else expression_statement lexer scope)"
  unfolding parse_statement_with_def Let_def
  by (cases "Token.type (get_current_token lexer)") simp_all

text \<open>
  Claim C10. The statement form is chosen from the kind of the current token alone.
  Whatever the six statement parsers are, when the current token is an identifier the
  dispatch hands the statement to the labeled-statement parser, and to no other,
  whatever tokens follow: the token after the identifier is not looked at, so
  \<^verbatim>\<open>x = 1;\<close> goes down the labeled path and not the expression-statement path.
  \<^verbatim>\<open>parse_statement\<close> is this dispatch over \<^verbatim>\<open>parse_labeled_statement\<close>,
  \<^verbatim>\<open>parse_compound_statement\<close>, \<^verbatim>\<open>parse_selection_statement\<close>,
  \<^verbatim>\<open>parse_iteration_statement\<close>, \<^verbatim>\<open>parse_jump_statement\<close> and
  \<^verbatim>\<open>parse_expression_statement\<close>, in this order, and on an identifier it returns what
  \<^verbatim>\<open>parse_labeled_statement\<close> returns. The last part is the whole table of the
  dispatch, for any current token.
\<close>

theorem parse_statement_identifier:
  "Token.type (get_current_token lexer) = TokenType.Identifier \<Longrightarrow>
   parse_statement_with labeled_statement compound_statement selection_statement
     iteration_statement jump_statement expression_statement lexer scope =
     labeled_statement lexer scope \<and>
   parse_statement (Suc n) update_declaration new_declaration parse_expression lexer scope =
     Some (parse_labeled_statement lexer scope) \<and>
   parse_statement (Suc n) update_declaration new_declaration parse_expression any_lexer scope =
     parse_statement_with
       (\<lambda>l s. Some (parse_labeled_statement l s))
       (parse_compound_statement n update_declaration new_declaration parse_expression)
       (\<lambda>l s. Some (parse_selection_statement l s))
       (\<lambda>l s. Some (parse_iteration_statement l s))
       (\<lambda>l s. Some (parse_jump_statement parse_expression l s))
       (\<lambda>l s. Some (parse_expression_statement l s))
       any_lexer scope \<and>
   parse_statement_with labeled_statement compound_statement selection_statement
     iteration_statement jump_statement expression_statement any_lexer scope =
     (let t = Token.type (get_current_token any_lexer) in
      if t = TokenType.Identifier \<or> t = TokenType.Case \<or> t = TokenType.Default
        then labeled_statement any_lexer scope
      else if t = TokenType.LBrace then compound_statement any_lexer scope
      else if t = TokenType.If \<or> t = TokenType.Switch then selection_statement any_lexer scope
      else if t = TokenType.While \<or> t = TokenType.For \<or> t = TokenType.Do
        then iteration_statement any_lexer scope
      else if t = TokenType.GoTo \<or> t = TokenType.Continue \<or> t = TokenType.Break \<or>
              t = TokenType.Return
        then jump_statement any_lexer scope
      else expression_statement any_lexer scope)"
proof -
  assume h: "Token.type (get_current_token lexer) = TokenType.Identifier"
  have a: "parse_statement_with labeled_statement compound_statement selection_statement
     iteration_statement jump_statement expression_statement lexer scope =
     labeled_statement lexer scope"
    using h by (simp add: parse_statement_with_def)
  have b: "parse_statement (Suc n) update_declaration new_declaration parse_expression lexer scope =
     Some (parse_labeled_statement lexer scope)"
    using h by (simp add: parse_statement_with_def)
  have c: "parse_statement (Suc n) update_declaration new_declaration parse_expression any_lexer
             scope =
     parse_statement_with
       (\<lambda>l s. Some (parse_labeled_statement l s))
       (parse_compound_statement n update_declaration new_declaration parse_expression)
       (\<lambda>l s. Some (parse_selection_statement l s))
       (\<lambda>l s. Some (parse_iteration_statement l s))
       (\<lambda>l s. Some (parse_jump_statement parse_expression l s))
       (\<lambda>l s. Some (parse_expression_statement l s))
       any_lexer scope"
    by (simp add: parse_statement_with_def parse_compound_statement_def
          split: statement_form.splits)
  show ?thesis
    using a b c parse_statement_with_dispatch [of labeled_statement compound_statement
      selection_statement iteration_statement jump_statement expression_statement any_lexer scope]
    by simp
qed

theorem parse_statement_identifier_witness:
  "Token.type (get_current_token
      \<lparr>current_token = \<lparr>Token.type = TokenType.Identifier, string = ''x''\<rparr>,
       remaining = [\<lparr>Token.type = TokenType.Equals, string = ''=''\<rparr>,
                    \<lparr>Token.type = TokenType.Number, string = ''1''\<rparr>,
                    \<lparr>Token.type = TokenType.Semicolon, string = '';''\<rparr>]\<rparr>) = TokenType.Identifier \<and>
   parse_statement_with (\<lambda>l s. ''labeled'') (\<lambda>l s. ''compound'') (\<lambda>l s. ''selection'')
      (\<lambda>l s. ''iteration'') (\<lambda>l s. ''jump'') (\<lambda>l s. ''expression'')
      \<lparr>current_token = \<lparr>Token.type = TokenType.Identifier, string = ''x''\<rparr>,
       remaining = [\<lparr>Token.type = TokenType.Equals, string = ''=''\<rparr>,
                    \<lparr>Token.type = TokenType.Number, string = ''1''\<rparr>,
                    \<lparr>Token.type = TokenType.Semicolon, string = '';''\<rparr>]\<rparr> None = ''labeled'' \<and>
   parse_statement (Suc 0) (\<lambda>token d. Inr (d @ [token])) [] (\<lambda>l s. parse_primary_expression l s)
      \<lparr>current_token = \<lparr>Token.type = TokenType.Identifier, string = ''x''\<rparr>,
       remaining = [\<lparr>Token.type = TokenType.Equals, string = ''=''\<rparr>,
                    \<lparr>Token.type = TokenType.Number, string = ''1''\<rparr>,
                    \<lparr>Token.type = TokenType.Semicolon, string = '';''\<rparr>]\<rparr> None =
   Some (parse_labeled_statement
      \<lparr>current_token = \<lparr>Token.type = TokenType.Identifier, string = ''x''\<rparr>,
       remaining = [\<lparr>Token.type = TokenType.Equals, string = ''=''\<rparr>,
                    \<lparr>Token.type = TokenType.Number, string = ''1''\<rparr>,
                    \<lparr>Token.type = TokenType.Semicolon, string = '';''\<rparr>]\<rparr> None)"
proof -
  let ?L = "\<lparr>current_token = \<lparr>Token.type = TokenType.Identifier, string = ''x''\<rparr>,
       remaining = [\<lparr>Token.type = TokenType.Equals, string = ''=''\<rparr>,
                    \<lparr>Token.type = TokenType.Number, string = ''1''\<rparr>,
                    \<lparr>Token.type = TokenType.Semicolon, string = '';''\<rparr>]\<rparr>"
  have h: "Token.type (get_current_token ?L) = TokenType.Identifier"
    by (simp add: get_current_token_def)
  have a: "parse_statement_with (\<lambda>l s. ''labeled'') (\<lambda>l s. ''compound'') (\<lambda>l s. ''selection'')
      (\<lambda>l s. ''iteration'') (\<lambda>l s. ''jump'') (\<lambda>l s. ''expression'') ?L None = ''labeled''"
    using parse_statement_identifier [OF h,
        where labeled_statement = "\<lambda>l s. ''labeled''" and compound_statement = "\<lambda>l s. ''compound''"
          and selection_statement = "\<lambda>l s. ''selection''"
          and iteration_statement = "\<lambda>l s. ''iteration''" and jump_statement = "\<lambda>l s. ''jump''"
          and expression_statement = "\<lambda>l s. ''expression''" and scope = None,
        THEN conjunct1]
    by simp
  have b: "parse_statement (Suc 0) (\<lambda>token d. Inr (d @ [token])) ([] :: Token list)
             (\<lambda>l s. parse_primary_expression l s) ?L None =
           Some (parse_labeled_statement ?L None)"
    using parse_statement_identifier [OF h,
        where n = 0 and update_declaration = "\<lambda>token d. Inr (d @ [token])"
          and new_declaration = "[] :: Token list"
          and parse_expression = "\<lambda>l s. parse_primary_expression l s" and scope = None,
        THEN conjunct2, THEN conjunct1]
    by simp
  show ?thesis using h a b by blast
qed

section \<open>Declarators\<close>

text \<open>
  What the declarator parser does with pointers and with the objects it creates: a
  single leading \<^verbatim>\<open>*\<close> is consumed by \<^verbatim>\<open>parse_declarator\<close> and then expected again by
  \<^verbatim>\<open>parse_pointer\<close>; an object that \<^verbatim>\<open>parse_direct_declarator\<close> returns carries its
  name and nothing else; \<^verbatim>\<open>parse_declarator\<close> returns no object.
\<close>

lemma parse_declarator_single_pointer:
  assumes "Token.type (get_current_token lexer) = TokenType.Asterisk"
    and "Token.type (get_current_token (get_next_token lexer)) \<noteq> TokenType.Asterisk"
  shows "parse_declarator (Suc (Suc n)) update_declaration new_declaration lexer =
           Some (Inl (UnexpectedToken ''Parsing pointer, expected *''))"
  using assms by (simp add: expect_and_get_next_token_def)

lemma parse_direct_declarator_no_type:
  assumes "parse_direct_declarator n update_declaration new_declaration lexer object0 =
             Some (Inr (Some obj, lexer'))"
  shows "Object.type obj = None \<and> function_body obj = None"
proof -
  have d: "Object.type obj = None \<and> function_body obj = None"
    if "direct_declarator_identifier l object0 = Inr (Some obj, lexer')" for l
    using that unfolding direct_declarator_identifier_def Let_def error_token_def
    by (auto simp: set_name_def new_object_def split: if_splits)
  show ?thesis
  proof (cases n)
    case 0
    with assms show ?thesis by simp
  next
    case (Suc m)
    with assms d show ?thesis
      by (auto split: if_splits option.splits sum.splits prod.splits)
  qed
qed

lemma parse_declarator_no_object:
  assumes "parse_declarator n update_declaration new_declaration lexer = Some (Inr (r, lexer'))"
  shows "r = None"
  using assms by (cases n) (auto split: if_splits option.splits sum.splits prod.splits)

text \<open>
  Claim C1. The declarator \<^verbatim>\<open>*a[3]\<close> should yield an array of 3 pointers and
  \<^verbatim>\<open>( *a)[3]\<close> a pointer to an array of 3, the suffixes binding before the leading
  pointers. Both stop with the diagnostic of \<^verbatim>\<open>parse_pointer\<close>, which looks for a
  \<^verbatim>\<open>*\<close> that \<^verbatim>\<open>parse_declarator\<close> has already consumed; without the pointer,
  \<^verbatim>\<open>a[3]\<close> stops at the unfinished branch for \<^verbatim>\<open>[\<close>. No type is assembled on any
  path.
\<close>

theorem parse_declarator_pointer_array:
  "parse_declarator (Suc (Suc 0)) update_declaration new_declaration
     \<lparr>current_token = \<lparr>Token.type = TokenType.Asterisk, string = ''*''\<rparr>,
      remaining = [\<lparr>Token.type = TokenType.Identifier, string = ''a''\<rparr>,
                   \<lparr>Token.type = TokenType.LBracket, string = ''[''\<rparr>,
                   \<lparr>Token.type = TokenType.Number, string = ''3''\<rparr>,
                   \<lparr>Token.type = TokenType.RBracket, string = '']''\<rparr>,
                   \<lparr>Token.type = TokenType.Semicolon, string = '';''\<rparr>]\<rparr> =
     Some (Inl (UnexpectedToken ''Parsing pointer, expected *'')) \<and>
   parse_declarator (Suc (Suc (Suc (Suc 0)))) update_declaration new_declaration
     \<lparr>current_token = \<lparr>Token.type = TokenType.LParen, string = ''(''\<rparr>,
      remaining = [\<lparr>Token.type = TokenType.Asterisk, string = ''*''\<rparr>,
                   \<lparr>Token.type = TokenType.Identifier, string = ''a''\<rparr>,
                   \<lparr>Token.type = TokenType.RParen, string = '')''\<rparr>,
                   \<lparr>Token.type = TokenType.LBracket, string = ''[''\<rparr>,
                   \<lparr>Token.type = TokenType.Number, string = ''3''\<rparr>,
                   \<lparr>Token.type = TokenType.RBracket, string = '']''\<rparr>,
                   \<lparr>Token.type = TokenType.Semicolon, string = '';''\<rparr>]\<rparr> =
     Some (Inl (UnexpectedToken ''Parsing pointer, expected *'')) \<and>
   parse_declarator (Suc (Suc 0)) update_declaration new_declaration
     \<lparr>current_token = \<lparr>Token.type = TokenType.Identifier, string = ''a''\<rparr>,
      remaining = [\<lparr>Token.type = TokenType.LBracket, string = ''[''\<rparr>,
                   \<lparr>Token.type = TokenType.Number, string = ''3''\<rparr>,
                   \<lparr>Token.type = TokenType.RBracket, string = '']''\<rparr>,
                   \<lparr>Token.type = TokenType.Semicolon, string = '';''\<rparr>]\<rparr> =
     Some (Inl (ErrorToken ''FIXME: default case in parse_direct_declarator''))"
  by (simp add: get_current_token_def get_next_token_def expect_and_get_next_token_def
        direct_declarator_identifier_def error_token_def set_name_def new_object_def)

section \<open>Scope lookup\<close>

lemma typedef_name_in_scope_chain:
  "typedef_name_in_scope type_name scope \<longleftrightarrow>
     (\<exists>s \<in> set (scope_chain scope). type_name \<in> typedef_names s)"
  by (induction type_name scope rule: typedef_name_in_scope.induct) auto

text \<open>
  Claim C3, as the code has it. The lookup of a typedef name walks the chain from the
  innermost scope outward and is true at the first scope whose typedef set holds the
  name; the ordinary sets are not consulted. An identifier is therefore a
  type-specifier exactly when some scope of the chain has it as a typedef name, also
  when a nearer scope declares a variable of that name.
\<close>

theorem token_is_type_specifier_identifier:
  "(token_is_type_specifier \<lparr>Token.type = TokenType.Identifier, string = type_name\<rparr> scope \<longleftrightarrow>
      (\<exists>s \<in> set (scope_chain scope). type_name \<in> typedef_names s)) \<and>
   (typedef_name_in_scope type_name (Some (Scope vs ts parent)) \<longleftrightarrow>
      type_name \<in> ts \<or> typedef_name_in_scope type_name parent)"
  by (simp add: token_is_type_specifier_def typedef_name_in_scope_chain)

theorem token_is_type_specifier_identifier_witness:
  "(\<exists>s \<in> set (scope_chain (Some (Scope {''T''} {} (Some (Scope {} {} (Some (Scope {} {''T''} None))))))).
      ''T'' \<in> typedef_names s) \<and>
   token_is_type_specifier \<lparr>Token.type = TokenType.Identifier, string = ''T''\<rparr>
     (Some (Scope {''T''} {} (Some (Scope {} {} (Some (Scope {} {''T''} None))))))"
  using token_is_type_specifier_identifier
          [of "''T''" "Some (Scope {''T''} {} (Some (Scope {} {} (Some (Scope {} {''T''} None)))))"]
  by simp

text \<open>
  The claim as stated fails: with a typedef \<^verbatim>\<open>T\<close> in the outer scope and a variable
  \<^verbatim>\<open>T\<close> in the inner one, \<^verbatim>\<open>T\<close> is in scope as a variable and the parser still
  classifies it as a type-specifier inside the inner scope.
\<close>

theorem token_is_type_specifier_shadow_counterexample:
  "variable_in_scope ''T'' (Some (Scope {''T''} {} (Some (Scope {} {''T''} None)))) \<and>
   token_is_type_specifier \<lparr>Token.type = TokenType.Identifier, string = ''T''\<rparr>
     (Some (Scope {''T''} {} (Some (Scope {} {''T''} None))))"
  by (simp add: token_is_type_specifier_def)

section \<open>Folding declaration specifiers\<close>

text \<open>
  When the first \<open>k\<close> tokens are specifiers and the next one is not, the loop hands
  those \<open>k\<close> tokens to \<open>update_declaration\<close> in order, and stops with the first
  failure of the fold if there is one.
\<close>

lemma declaration_specifiers_loop_run:
  assumes "\<forall>i<k. token_is_declaration_specifier (token_at lexer i) scope"
    and "\<not> token_is_declaration_specifier (token_at lexer k) scope"
    and "k < n"
  shows "declaration_specifiers_loop n update_declaration d lexer scope =
           (case fold_declaration update_declaration (map (token_at lexer) [0..<k]) d of
              Inl e \<Rightarrow> Some (Inl e)
            | Inr d' \<Rightarrow> Some (Inr (d', (get_next_token ^^ k) lexer)))"
  using assms
proof (induction k arbitrary: n d lexer)
  case 0
  then obtain m where "n = Suc m" by (cases n) auto
  with 0 show ?case by (simp add: token_at_def)
next
  case (Suc k)
  then obtain m where n: "n = Suc m" and km: "k < m" by (cases n) auto
  have shift: "token_at (get_next_token lexer) i = token_at lexer (Suc i)" for i
    by (simp add: token_at_def funpow_swap1)
  have first: "token_is_declaration_specifier (get_current_token lexer) scope"
    using Suc.prems(1) by (auto simp: token_at_def dest: spec [of _ 0])
  have rest: "\<forall>i<k. token_is_declaration_specifier (token_at (get_next_token lexer) i) scope"
    using Suc.prems(1) by (auto simp: shift)
  have stop: "\<not> token_is_declaration_specifier (token_at (get_next_token lexer) k) scope"
    using Suc.prems(2) by (simp add: shift)
  have ih: "declaration_specifiers_loop m update_declaration d1 (get_next_token lexer) scope =
        (case fold_declaration update_declaration
                (map (token_at (get_next_token lexer)) [0..<k]) d1 of
           Inl e \<Rightarrow> Some (Inl e)
         | Inr d' \<Rightarrow> Some (Inr (d', (get_next_token ^^ k) (get_next_token lexer))))" for d1
    by (rule Suc.IH [OF rest stop km])
  have tokens: "map (token_at lexer) [0..<Suc k] =
                  get_current_token lexer # map (token_at (get_next_token lexer)) [0..<k]"
  proof -
    have "[0..<Suc k] = 0 # map Suc [0..<k]"
      by (simp add: upt_conv_Cons map_Suc_upt del: upt_Suc)
    then show ?thesis by (simp add: token_at_def comp_def funpow_swap1 del: upt_Suc)
  qed
  show ?case
    unfolding tokens n
    using first by (simp add: ih funpow_swap1 split: sum.splits del: upt_Suc)
qed

text \<open>
  Claim C7, as the code has it. A token is a specifier when it matches at least one of
  the five categories; a token whose text is a typedef name visible from the scope is a
  type-specifier whatever was folded before it. When the first \<open>k\<close> tokens are
  specifiers and the next one is not, folding, for any fuel above \<open>k\<close> and whatever
  \<open>update_declaration\<close> is, folds exactly those \<open>k\<close> tokens in order: it returns the
  folded declaration in front of the first token that matches no category, or stops
  with the failure of the first token that \<open>update_declaration\<close> refuses.
\<close>

theorem parse_declaration_specifiers_run:
  assumes "\<forall>i<k. token_is_declaration_specifier (token_at lexer i) scope"
    and "\<not> token_is_declaration_specifier (token_at lexer k) scope"
    and "k < n"
  shows "parse_declaration_specifiers n update_declaration new_declaration lexer scope =
           (case fold_declaration update_declaration (map (token_at lexer) [0..<k])
                   new_declaration of
              Inl e \<Rightarrow> Some (Inl e)
            | Inr d \<Rightarrow> Some (Inr (d, (get_next_token ^^ k) lexer))) \<and>
         (\<forall>token. token_is_declaration_specifier token scope \<longleftrightarrow>
            token_is_storage_class_specifier token \<or> token_is_type_qualifier token \<or>
            token_is_type_specifier token scope \<or> token_is_function_specifier token \<or>
            token_is_alignment_specifier token) \<and>
         (\<forall>token. typedef_name_in_scope (Token.string token) scope \<longrightarrow>
            token_is_type_specifier token scope)"
  using declaration_specifiers_loop_run [OF assms, of update_declaration new_declaration]
  by (auto simp: parse_declaration_specifiers_def token_is_declaration_specifier_def
        token_is_type_specifier_def)

text \<open>
  The same specifiers \<^verbatim>\<open>const unsigned T\<close>, once with an \<open>update_declaration\<close> that
  records the tokens it is handed and once with one that refuses \<^verbatim>\<open>unsigned\<close>.
\<close>

theorem parse_declaration_specifiers_run_witness:
  "token_is_declaration_specifier
     (token_at \<lparr>current_token = \<lparr>Token.type = TokenType.Const, string = ''const''\<rparr>,
                remaining = [\<lparr>Token.type = TokenType.Unsigned, string = ''unsigned''\<rparr>,
                             \<lparr>Token.type = TokenType.Identifier, string = ''T''\<rparr>,
                             \<lparr>Token.type = TokenType.Identifier, string = ''x''\<rparr>,
                             \<lparr>Token.type = TokenType.Semicolon, string = '';''\<rparr>]\<rparr> 2)
     (Some (Scope {} {} (Some (Scope {} {''T''} None)))) \<and>
   \<not> token_is_declaration_specifier
     (token_at \<lparr>current_token = \<lparr>Token.type = TokenType.Const, string = ''const''\<rparr>,
                remaining = [\<lparr>Token.type = TokenType.Unsigned, string = ''unsigned''\<rparr>,
                             \<lparr>Token.type = TokenType.Identifier, string = ''T''\<rparr>,
                             \<lparr>Token.type = TokenType.Identifier, string = ''x''\<rparr>,
                             \<lparr>Token.type = TokenType.Semicolon, string = '';''\<rparr>]\<rparr> 3)
     (Some (Scope {} {} (Some (Scope {} {''T''} None)))) \<and>
   parse_declaration_specifiers 4 (\<lambda>token d. Inr (d @ [token])) []
     \<lparr>current_token = \<lparr>Token.type = TokenType.Const, string = ''const''\<rparr>,
      remaining = [\<lparr>Token.type = TokenType.Unsigned, string = ''unsigned''\<rparr>,
                   \<lparr>Token.type = TokenType.Identifier, string = ''T''\<rparr>,
                   \<lparr>Token.type = TokenType.Identifier, string = ''x''\<rparr>,
                   \<lparr>Token.type = TokenType.Semicolon, string = '';''\<rparr>]\<rparr>
     (Some (Scope {} {} (Some (Scope {} {''T''} None)))) =
   Some (Inr ([\<lparr>Token.type = TokenType.Const, string = ''const''\<rparr>,
               \<lparr>Token.type = TokenType.Unsigned, string = ''unsigned''\<rparr>,
               \<lparr>Token.type = TokenType.Identifier, string = ''T''\<rparr>],
              \<lparr>current_token = \<lparr>Token.type = TokenType.Identifier, string = ''x''\<rparr>,
               remaining = [\<lparr>Token.type = TokenType.Semicolon, string = '';''\<rparr>]\<rparr>)) \<and>
   parse_declaration_specifiers 4
     (\<lambda>token d. if Token.type token = TokenType.Unsigned
                  then Inl (ErrorToken ''invalid specifier combination'')
                  else Inr (d @ [token])) []
     \<lparr>current_token = \<lparr>Token.type = TokenType.Const, string = ''const''\<rparr>,
      remaining = [\<lparr>Token.type = TokenType.Unsigned, string = ''unsigned''\<rparr>,
                   \<lparr>Token.type = TokenType.Identifier, string = ''T''\<rparr>,
                   \<lparr>Token.type = TokenType.Identifier, string = ''x''\<rparr>,
                   \<lparr>Token.type = TokenType.Semicolon, string = '';''\<rparr>]\<rparr>
     (Some (Scope {} {} (Some (Scope {} {''T''} None)))) =
   Some (Inl (ErrorToken ''invalid specifier combination''))"
proof -
  let ?L = "\<lparr>current_token = \<lparr>Token.type = TokenType.Const, string = ''const''\<rparr>,
      remaining = [\<lparr>Token.type = TokenType.Unsigned, string = ''unsigned''\<rparr>,
                   \<lparr>Token.type = TokenType.Identifier, string = ''T''\<rparr>,
                   \<lparr>Token.type = TokenType.Identifier, string = ''x''\<rparr>,
                   \<lparr>Token.type = TokenType.Semicolon, string = '';''\<rparr>]\<rparr>"
  let ?S = "Some (Scope {} {} (Some (Scope {} {''T''} None)))"
  have t: "token_at ?L 0 = \<lparr>Token.type = TokenType.Const, string = ''const''\<rparr>"
    "token_at ?L (Suc 0) = \<lparr>Token.type = TokenType.Unsigned, string = ''unsigned''\<rparr>"
    "token_at ?L 2 = \<lparr>Token.type = TokenType.Identifier, string = ''T''\<rparr>"
    "token_at ?L 3 = \<lparr>Token.type = TokenType.Identifier, string = ''x''\<rparr>"
    "(get_next_token ^^ 3) ?L =
       \<lparr>current_token = \<lparr>Token.type = TokenType.Identifier, string = ''x''\<rparr>,
        remaining = [\<lparr>Token.type = TokenType.Semicolon, string = '';''\<rparr>]\<rparr>"
    by (simp_all add: token_at_def get_current_token_def get_next_token_def eval_nat_numeral)
  have c: "token_is_declaration_specifier (token_at ?L 0) ?S"
    "token_is_declaration_specifier (token_at ?L (Suc 0)) ?S"
    "token_is_declaration_specifier (token_at ?L 2) ?S"
    "\<not> token_is_declaration_specifier (token_at ?L 3) ?S"
    by (simp_all add: t token_is_declaration_specifier_def token_is_type_specifier_def
          token_is_storage_class_specifier_def token_is_type_qualifier_def
          token_is_function_specifier_def token_is_alignment_specifier_def)
  have h1: "\<forall>i<3. token_is_declaration_specifier (token_at ?L i) ?S"
  proof (intro allI impI)
    fix i :: nat
    assume "i < 3"
    then have "i = 0 \<or> i = Suc 0 \<or> i = 2" by arith
    with c show "token_is_declaration_specifier (token_at ?L i) ?S" by auto
  qed
  have m: "map (token_at ?L) [0..<3] = [token_at ?L 0, token_at ?L (Suc 0), token_at ?L 2]"
    by (simp add: eval_nat_numeral)
  have r1: "parse_declaration_specifiers 4 (\<lambda>token d. Inr (d @ [token])) [] ?L ?S =
     Some (Inr ([\<lparr>Token.type = TokenType.Const, string = ''const''\<rparr>,
               \<lparr>Token.type = TokenType.Unsigned, string = ''unsigned''\<rparr>,
               \<lparr>Token.type = TokenType.Identifier, string = ''T''\<rparr>],
              \<lparr>current_token = \<lparr>Token.type = TokenType.Identifier, string = ''x''\<rparr>,
               remaining = [\<lparr>Token.type = TokenType.Semicolon, string = '';''\<rparr>]\<rparr>))"
    using parse_declaration_specifiers_run [OF h1 c(4), of 4 "\<lambda>token d. Inr (d @ [token])" "[]"]
    by (simp add: t m)
  have r2: "parse_declaration_specifiers 4
     (\<lambda>token d. if Token.type token = TokenType.Unsigned
                  then Inl (ErrorToken ''invalid specifier combination'')
                  else Inr (d @ [token])) [] ?L ?S =
     Some (Inl (ErrorToken ''invalid specifier combination''))"
    using parse_declaration_specifiers_run [OF h1 c(4), of 4
            "\<lambda>token d. if Token.type token = TokenType.Unsigned
                  then Inl (ErrorToken ''invalid specifier combination'')
                  else Inr (d @ [token])" "[]"]
    by (simp add: t m)
  show ?thesis using c(3,4) r1 r2 by simp
qed

text \<open>
  The claim as stated fails twice: \<^verbatim>\<open>_Atomic\<close> is in two categories, type-qualifier
  and type-specifier; and in \<^verbatim>\<open>int T;\<close>, with \<^verbatim>\<open>T\<close> a typedef name of the scope, both
  \<^verbatim>\<open>int\<close> and \<^verbatim>\<open>T\<close> are type-specifiers, and \<^verbatim>\<open>T\<close> is handed to the fold although the
  keyword \<^verbatim>\<open>int\<close> has matched before it: an \<open>update_declaration\<close> that records the
  tokens it is handed records \<^verbatim>\<open>int\<close> and \<^verbatim>\<open>T\<close>.
\<close>

theorem parse_declaration_specifiers_counterexample:
  "token_is_type_qualifier \<lparr>Token.type = TokenType.Atomic, string = ''_Atomic''\<rparr> \<and>
   token_is_type_specifier \<lparr>Token.type = TokenType.Atomic, string = ''_Atomic''\<rparr> None \<and>
   token_is_type_specifier \<lparr>Token.type = TokenType.Int, string = ''int''\<rparr>
     (Some (Scope {} {''T''} None)) \<and>
   token_is_type_specifier \<lparr>Token.type = TokenType.Identifier, string = ''T''\<rparr>
     (Some (Scope {} {''T''} None)) \<and>
   parse_declaration_specifiers (Suc (Suc (Suc 0))) (\<lambda>token d. Inr (d @ [token])) []
     \<lparr>current_token = \<lparr>Token.type = TokenType.Int, string = ''int''\<rparr>,
      remaining = [\<lparr>Token.type = TokenType.Identifier, string = ''T''\<rparr>,
                   \<lparr>Token.type = TokenType.Semicolon, string = '';''\<rparr>]\<rparr>
     (Some (Scope {} {''T''} None)) =
   Some (Inr ([\<lparr>Token.type = TokenType.Int, string = ''int''\<rparr>,
               \<lparr>Token.type = TokenType.Identifier, string = ''T''\<rparr>],
              \<lparr>current_token = \<lparr>Token.type = TokenType.Semicolon, string = '';''\<rparr>,
               remaining = []\<rparr>))"
  by (simp add: token_is_type_qualifier_def token_is_type_specifier_def
        parse_declaration_specifiers_def token_is_declaration_specifier_def
        token_is_storage_class_specifier_def token_is_function_specifier_def
        token_is_alignment_specifier_def get_current_token_def get_next_token_def)

section \<open>Compound statements and scopes\<close>

lemma compound_statement_loop_scope:
  "compound_statement_loop declaration_parser statement_parser n lexer scope nodes previous =
   compound_statement_loop (\<lambda>l s. declaration_parser l scope) (\<lambda>l s. statement_parser l scope)
     n lexer scope nodes previous"
proof (induction n arbitrary: lexer nodes previous)
  case 0
  show ?case by simp
next
  case (Suc n)
  show ?case
    by (simp add: Suc.IH [symmetric] split: option.splits sum.splits prod.splits)
qed

text \<open>
  Claim C8, as the code has it. Parsing a block opens no scope. Whatever the two item
  parsers are, they are handed the scope the block itself was handed, and nothing
  else: the block parses the same when each is bound to that scope beforehand. This
  holds for \<^verbatim>\<open>parse_declaration\<close> and \<^verbatim>\<open>parse_statement\<close> in particular, and a nested
  block, reached through \<^verbatim>\<open>parse_statement\<close>, is again handed the same scope.
\<close>

theorem parse_compound_statement_scope:
  "parse_compound_statement_with declaration_parser statement_parser n lexer scope =
     parse_compound_statement_with (\<lambda>l s. declaration_parser l scope) (\<lambda>l s. statement_parser l scope)
       n lexer scope \<and>
   parse_compound_statement n update_declaration new_declaration parse_expression lexer scope =
     parse_compound_statement_with (\<lambda>l s. parse_declaration n update_declaration new_declaration l scope)
       (\<lambda>l s. parse_statement n update_declaration new_declaration parse_expression l scope) n lexer scope \<and>
   (Token.type (get_current_token lexer) = TokenType.LBrace \<longrightarrow>
      parse_statement (Suc n) update_declaration new_declaration parse_expression lexer scope =
        parse_compound_statement n update_declaration new_declaration parse_expression lexer scope)"
proof -
  have a: "parse_compound_statement_with d s n lexer scope =
     parse_compound_statement_with (\<lambda>l s'. d l scope) (\<lambda>l s'. s l scope) n lexer scope" for d s
    unfolding parse_compound_statement_with_def
    using compound_statement_loop_scope [of d s] by simp
  show ?thesis
    using a [of declaration_parser statement_parser] a [of "parse_declaration n update_declaration new_declaration"
        "parse_statement n update_declaration new_declaration parse_expression"]
    by (simp add: parse_compound_statement_def parse_statement_with_def)
qed

theorem parse_compound_statement_scope_witness:
  "Token.type (get_current_token
      \<lparr>current_token = \<lparr>Token.type = TokenType.LBrace, string = ''{''\<rparr>,
       remaining = [\<lparr>Token.type = TokenType.LBrace, string = ''{''\<rparr>,
                    \<lparr>Token.type = TokenType.RBrace, string = ''}''\<rparr>,
                    \<lparr>Token.type = TokenType.RBrace, string = ''}''\<rparr>]\<rparr>) = TokenType.LBrace \<and>
   parse_statement (Suc (Suc (Suc (Suc 0)))) (\<lambda>token d. Inr (d @ [token])) []
      (\<lambda>l s. parse_primary_expression l s)
      \<lparr>current_token = \<lparr>Token.type = TokenType.LBrace, string = ''{''\<rparr>,
       remaining = [\<lparr>Token.type = TokenType.LBrace, string = ''{''\<rparr>,
                    \<lparr>Token.type = TokenType.RBrace, string = ''}''\<rparr>,
                    \<lparr>Token.type = TokenType.RBrace, string = ''}''\<rparr>]\<rparr>
      (Some (Scope {} {} None)) =
   parse_compound_statement (Suc (Suc (Suc 0))) (\<lambda>token d. Inr (d @ [token])) []
      (\<lambda>l s. parse_primary_expression l s)
      \<lparr>current_token = \<lparr>Token.type = TokenType.LBrace, string = ''{''\<rparr>,
       remaining = [\<lparr>Token.type = TokenType.LBrace, string = ''{''\<rparr>,
                    \<lparr>Token.type = TokenType.RBrace, string = ''}''\<rparr>,
                    \<lparr>Token.type = TokenType.RBrace, string = ''}''\<rparr>]\<rparr>
      (Some (Scope {} {} None)) \<and>
   parse_compound_statement (Suc (Suc (Suc 0))) (\<lambda>token d. Inr (d @ [token])) []
      (\<lambda>l s. parse_primary_expression l s)
      \<lparr>current_token = \<lparr>Token.type = TokenType.LBrace, string = ''{''\<rparr>,
       remaining = [\<lparr>Token.type = TokenType.LBrace, string = ''{''\<rparr>,
                    \<lparr>Token.type = TokenType.RBrace, string = ''}''\<rparr>,
                    \<lparr>Token.type = TokenType.RBrace, string = ''}''\<rparr>]\<rparr>
      (Some (Scope {} {} None)) =
   Some (Inr (None, \<lparr>current_token = eof_token, remaining = []\<rparr>))"
proof -
  let ?L = "\<lparr>current_token = \<lparr>Token.type = TokenType.LBrace, string = ''{''\<rparr>,
       remaining = [\<lparr>Token.type = TokenType.LBrace, string = ''{''\<rparr>,
                    \<lparr>Token.type = TokenType.RBrace, string = ''}''\<rparr>,
                    \<lparr>Token.type = TokenType.RBrace, string = ''}''\<rparr>]\<rparr>"
  have h: "Token.type (get_current_token ?L) = TokenType.LBrace"
    by (simp add: get_current_token_def)
  have r: "parse_compound_statement (Suc (Suc (Suc 0))) (\<lambda>token d. Inr (d @ [token])) []
      (\<lambda>l s. parse_primary_expression l s) ?L
             (Some (Scope {} {} None)) =
           Some (Inr (None, \<lparr>current_token = eof_token, remaining = []\<rparr>))"
    by (simp add: parse_compound_statement_def parse_compound_statement_with_def
          parse_statement_with_def
          get_current_token_def get_next_token_def token_is_declaration_specifier_def
          token_is_type_specifier_def token_is_storage_class_specifier_def
          token_is_type_qualifier_def token_is_function_specifier_def
          token_is_alignment_specifier_def)
  show ?thesis
    using h r parse_compound_statement_scope
      [where n = "Suc (Suc (Suc 0))" and lexer = ?L and scope = "Some (Scope {} {} None)"
         and update_declaration = "\<lambda>token d. Inr (d @ [token])"
         and new_declaration = "[] :: Token list"
         and parse_expression = "\<lambda>l s. parse_primary_expression l s"
         and declaration_parser = "\<lambda>l s. None" and statement_parser = "\<lambda>l s. None"]
    by simp
qed

text \<open>
  The claim as stated fails. The statement parser used here marks its node with 1
  when the scope it is handed is the scope enclosing the block and with 0 when it is
  any other scope, a child of the enclosing scope included. In the block \<^verbatim>\<open>{ x }\<close> the
  statement is marked 1.
\<close>

theorem parse_compound_statement_scope_counterexample:
  "parse_compound_statement_with (\<lambda>l s. None)
     (\<lambda>l s. Some (Inr (Some (set_data (new_ast_node ASTNodeType.Void) DataType.Int
                                (if s = Some (Scope {} {} None) then 1 else 0)),
                      get_next_token l)))
     (Suc (Suc 0))
     \<lparr>current_token = \<lparr>Token.type = TokenType.LBrace, string = ''{''\<rparr>,
      remaining = [\<lparr>Token.type = TokenType.Identifier, string = ''x''\<rparr>,
                   \<lparr>Token.type = TokenType.RBrace, string = ''}''\<rparr>]\<rparr>
     (Some (Scope {} {} None)) =
   Some (Inr (Some (ASTNode ASTNodeType.Void DataType.Int (Some 1) None None None None),
              \<lparr>current_token = eof_token, remaining = []\<rparr>))"
  by (simp add: parse_compound_statement_with_def get_current_token_def get_next_token_def
        token_is_declaration_specifier_def token_is_type_specifier_def
        token_is_storage_class_specifier_def token_is_type_qualifier_def
        token_is_function_specifier_def token_is_alignment_specifier_def
        set_data_def new_ast_node_def)

section \<open>The translation-unit driver\<close>

text \<open>
  The entries linked so far only ever grow at the end: running the loop from the entries
  \<open>ds @ es\<close> gives what running it from \<open>es\<close> gives, behind \<open>ds\<close>.
\<close>

lemma translation_unit_loop_append:
  "translation_unit_loop update_declaration new_declaration to_type pd prd pe n lexer scope (ds @ es) =
     (case translation_unit_loop update_declaration new_declaration to_type pd prd pe n lexer scope es of
        None \<Rightarrow> None
      | Some (Inl e) \<Rightarrow> Some (Inl e)
      | Some (Inr out) \<Rightarrow> Some (Inr (ds @ out)))"
proof (induction n arbitrary: lexer es)
  case 0
  show ?case by simp
next
  case (Suc n)
  have ih: "translation_unit_loop update_declaration new_declaration to_type pd prd pe n l scope (ds @ es @ [e]) =
     (case translation_unit_loop update_declaration new_declaration to_type pd prd pe n l scope (es @ [e]) of
        None \<Rightarrow> None
      | Some (Inl e) \<Rightarrow> Some (Inl e)
      | Some (Inr out) \<Rightarrow> Some (Inr (ds @ out)))"
    for l e
    using Suc.IH [of l "es @ [e]"] by (simp only: append_assoc)
  show ?case
    by (simp add: ih Let_def split: option.splits sum.splits prod.splits)
qed

text \<open>
  Claim C5. \<^verbatim>\<open>parse_translation_unit\<close> reads the first token and runs its loop from
  the global scope and no entries. At end-of-input the loop returns the entries
  recorded so far. Otherwise,
  once the specifiers and the declarator are parsed: when the declared object's type is
  a function and the token after the declarator is \<^verbatim>\<open>{\<close>, the body is parsed as a
  compound statement and the entry appended is a \<open>FunctionDefinition\<close> holding it;
  in every other case the rest of the declaration is parsed and the entry appended is a
  \<open>Declaration\<close>. The loop then goes on behind the entry it appended, and the entries
  are in the order in which they were parsed.
\<close>

theorem translation_unit_loop_step:
  "parse_translation_unit update_declaration new_declaration to_type pd prd pe n lexer =
     translation_unit_loop update_declaration new_declaration to_type pd prd pe n (get_next_token lexer)
       (Some (Scope {} {} None)) [] \<and>
   (Token.type (get_current_token lexer) = TokenType.Eof \<longrightarrow>
      translation_unit_loop update_declaration new_declaration to_type pd prd pe (Suc n) lexer scope ds = Some (Inr ds)) \<and>
   (Token.type (get_current_token lexer) \<noteq> TokenType.Eof \<and>
    token_is_declaration_specifier (get_current_token lexer) scope \<and>
    parse_declaration_specifiers n update_declaration new_declaration lexer scope =
      Some (Inr (specifiers, after_specifiers)) \<and>
    pd after_specifiers (to_type specifiers) scope = Inr (obj, after_declarator) \<and>
    Object.type obj = Some t \<longrightarrow>
      (fundamental_type t = FundamentalType.Function \<and>
       Token.type (get_current_token after_declarator) = TokenType.LBrace \<and>
       parse_compound_statement n update_declaration new_declaration pe after_declarator scope = Some (Inr (body, after_item)) \<longrightarrow>
         translation_unit_loop update_declaration new_declaration to_type pd prd pe (Suc n) lexer scope ds =
           translation_unit_loop update_declaration new_declaration to_type pd prd pe n after_item scope
             (ds @ [\<lparr>ExternalDeclaration.type = ExternalDeclarationType.FunctionDefinition,
                     root_ast_node = set_object (new_ast_node ASTNodeType.Declaration)
                                       (set_function_body obj body)\<rparr>])) \<and>
      (\<not> (fundamental_type t = FundamentalType.Function \<and>
          Token.type (get_current_token after_declarator) = TokenType.LBrace) \<and>
       prd after_declarator scope (set_object (new_ast_node ASTNodeType.Declaration) obj) =
         Inr (node, after_item) \<longrightarrow>
         translation_unit_loop update_declaration new_declaration to_type pd prd pe (Suc n) lexer scope ds =
           translation_unit_loop update_declaration new_declaration to_type pd prd pe n after_item scope
             (ds @ [\<lparr>ExternalDeclaration.type = ExternalDeclarationType.Declaration,
                     root_ast_node = node\<rparr>]))) \<and>
   translation_unit_loop update_declaration new_declaration to_type pd prd pe n lexer scope ds =
     (case translation_unit_loop update_declaration new_declaration to_type pd prd pe n lexer scope [] of
        None \<Rightarrow> None
      | Some (Inl e) \<Rightarrow> Some (Inl e)
      | Some (Inr out) \<Rightarrow> Some (Inr (ds @ out)))"
  using translation_unit_loop_append
          [of update_declaration new_declaration to_type pd prd pe n lexer scope ds "[]"]
  by (auto simp: Let_def new_external_declaration_def parse_translation_unit_def)

theorem translation_unit_loop_step_witness:
  "Token.type (get_current_token
      \<lparr>current_token = \<lparr>Token.type = TokenType.Int, string = ''int''\<rparr>,
       remaining = [\<lparr>Token.type = TokenType.Identifier, string = ''f''\<rparr>,
                    \<lparr>Token.type = TokenType.LParen, string = ''(''\<rparr>,
                    \<lparr>Token.type = TokenType.RParen, string = '')''\<rparr>,
                    \<lparr>Token.type = TokenType.LBrace, string = ''{''\<rparr>,
                    \<lparr>Token.type = TokenType.RBrace, string = ''}''\<rparr>,
                    \<lparr>Token.type = TokenType.Int, string = ''int''\<rparr>,
                    \<lparr>Token.type = TokenType.Identifier, string = ''x''\<rparr>,
                    \<lparr>Token.type = TokenType.Semicolon, string = '';''\<rparr>]\<rparr>) \<noteq> TokenType.Eof \<and>
   parse_compound_statement (Suc (Suc (Suc (Suc 0)))) (\<lambda>token d. Inr (d @ [token])) []
      (\<lambda>l s. Inl (AssertionFailed []))
      \<lparr>current_token = \<lparr>Token.type = TokenType.LBrace, string = ''{''\<rparr>,
       remaining = [\<lparr>Token.type = TokenType.RBrace, string = ''}''\<rparr>,
                    \<lparr>Token.type = TokenType.Int, string = ''int''\<rparr>,
                    \<lparr>Token.type = TokenType.Identifier, string = ''x''\<rparr>,
                    \<lparr>Token.type = TokenType.Semicolon, string = '';''\<rparr>]\<rparr>
      (Some (Scope {} {} None)) =
     Some (Inr (None,
        \<lparr>current_token = \<lparr>Token.type = TokenType.Int, string = ''int''\<rparr>,
         remaining = [\<lparr>Token.type = TokenType.Identifier, string = ''x''\<rparr>,
                      \<lparr>Token.type = TokenType.Semicolon, string = '';''\<rparr>]\<rparr>)) \<and>
   translation_unit_loop (\<lambda>token d. Inr (d @ [token])) []
      (\<lambda>d. \<lparr>fundamental_type = FundamentalType.Int\<rparr>)
      (\<lambda>l t s. if Token.type (get_current_token (get_next_token l)) = TokenType.LParen
                then Inr (Object (Token.string (get_current_token l))
                            (Some \<lparr>fundamental_type = FundamentalType.Function\<rparr>) None,
                          get_next_token (get_next_token (get_next_token l)))
                else Inr (Object (Token.string (get_current_token l)) (Some t) None,
                          get_next_token l))
      (\<lambda>l s node. Inr (node, get_next_token l))
      (\<lambda>l s. Inl (AssertionFailed []))
      (Suc (Suc (Suc (Suc (Suc 0)))))
      \<lparr>current_token = \<lparr>Token.type = TokenType.Int, string = ''int''\<rparr>,
       remaining = [\<lparr>Token.type = TokenType.Identifier, string = ''f''\<rparr>,
                    \<lparr>Token.type = TokenType.LParen, string = ''(''\<rparr>,
                    \<lparr>Token.type = TokenType.RParen, string = '')''\<rparr>,
                    \<lparr>Token.type = TokenType.LBrace, string = ''{''\<rparr>,
                    \<lparr>Token.type = TokenType.RBrace, string = ''}''\<rparr>,
                    \<lparr>Token.type = TokenType.Int, string = ''int''\<rparr>,
                    \<lparr>Token.type = TokenType.Identifier, string = ''x''\<rparr>,
                    \<lparr>Token.type = TokenType.Semicolon, string = '';''\<rparr>]\<rparr>
      (Some (Scope {} {} None)) [] =
     Some (Inr
       [\<lparr>ExternalDeclaration.type = ExternalDeclarationType.FunctionDefinition,
         root_ast_node =
           ASTNode ASTNodeType.Declaration DataType.Void None None None None
             (Some (Object ''f'' (Some \<lparr>fundamental_type = FundamentalType.Function\<rparr>) None))\<rparr>,
        \<lparr>ExternalDeclaration.type = ExternalDeclarationType.Declaration,
         root_ast_node =
           ASTNode ASTNodeType.Declaration DataType.Void None None None None
             (Some (Object ''x'' (Some \<lparr>fundamental_type = FundamentalType.Int\<rparr>) None))\<rparr>])"
proof -
  let ?S = "Some (Scope {} {} None)"
  let ?PE = "\<lambda>(l::Lexer) (s::Scope option). (Inl (AssertionFailed []) :: ASTNode parse)"
  let ?L0 = "\<lparr>current_token = \<lparr>Token.type = TokenType.Int, string = ''int''\<rparr>,
       remaining = [\<lparr>Token.type = TokenType.Identifier, string = ''f''\<rparr>,
                    \<lparr>Token.type = TokenType.LParen, string = ''(''\<rparr>,
                    \<lparr>Token.type = TokenType.RParen, string = '')''\<rparr>,
                    \<lparr>Token.type = TokenType.LBrace, string = ''{''\<rparr>,
                    \<lparr>Token.type = TokenType.RBrace, string = ''}''\<rparr>,
                    \<lparr>Token.type = TokenType.Int, string = ''int''\<rparr>,
                    \<lparr>Token.type = TokenType.Identifier, string = ''x''\<rparr>,
                    \<lparr>Token.type = TokenType.Semicolon, string = '';''\<rparr>]\<rparr>"
  let ?L2 = "\<lparr>current_token = \<lparr>Token.type = TokenType.LBrace, string = ''{''\<rparr>,
       remaining = [\<lparr>Token.type = TokenType.RBrace, string = ''}''\<rparr>,
                    \<lparr>Token.type = TokenType.Int, string = ''int''\<rparr>,
                    \<lparr>Token.type = TokenType.Identifier, string = ''x''\<rparr>,
                    \<lparr>Token.type = TokenType.Semicolon, string = '';''\<rparr>]\<rparr>"
  have kw: "token_is_declaration_specifier \<lparr>Token.type = TokenType.Int, string = ''int''\<rparr> ?S"
    "\<not> token_is_declaration_specifier \<lparr>Token.type = TokenType.Identifier, string = ''f''\<rparr> ?S"
    "\<not> token_is_declaration_specifier \<lparr>Token.type = TokenType.Identifier, string = ''x''\<rparr> ?S"
    "\<not> token_is_declaration_specifier \<lparr>Token.type = TokenType.RBrace, string = ''}''\<rparr> ?S"
    by (simp_all add: token_is_declaration_specifier_def token_is_type_specifier_def
          token_is_storage_class_specifier_def token_is_type_qualifier_def
          token_is_function_specifier_def token_is_alignment_specifier_def)
  have body: "parse_compound_statement (Suc (Suc (Suc (Suc 0)))) (\<lambda>token d. Inr (d @ [token]))
       ([] :: Token list) ?PE ?L2 ?S =
     Some (Inr (None,
        \<lparr>current_token = \<lparr>Token.type = TokenType.Int, string = ''int''\<rparr>,
         remaining = [\<lparr>Token.type = TokenType.Identifier, string = ''x''\<rparr>,
                      \<lparr>Token.type = TokenType.Semicolon, string = '';''\<rparr>]\<rparr>))"
    by (simp add: parse_compound_statement_def parse_compound_statement_with_def
          get_current_token_def get_next_token_def kw)
  have ne: "Token.type (get_current_token ?L0) \<noteq> TokenType.Eof"
    by (simp add: get_current_token_def)
  show ?thesis
    using ne body
      translation_unit_loop_step
        [where lexer = ?L0 and scope = ?S and n = "Suc (Suc (Suc (Suc 0)))" and ds = "[]"
           and update_declaration = "\<lambda>token d. Inr (d @ [token])"
           and new_declaration = "[] :: Token list"
           and pe = ?PE and after_declarator = ?L2 and body = None
           and specifiers = "[\<lparr>Token.type = TokenType.Int, string = ''int''\<rparr>]"]
    by (simp add: kw parse_declaration_specifiers_def parse_statement_with_def
          parse_compound_statement_def parse_compound_statement_with_def
          get_current_token_def get_next_token_def eof_token_def
          new_external_declaration_def new_ast_node_def set_object_def set_function_body_def)
qed

end
